theory Spec2Isabelle
  imports Complex_Main
begin

section \<open>JavaScript values used by the service\<close>

text \<open>
  The development embeds the request pipeline of the two service files
  \<^verbatim>\<open>src/unnamed/part_000\<close> (five API clients, jitter, fallback model) and
  \<^verbatim>\<open>src/backend/services/geminiService.js\<close> (one client, no jitter). Definitions
  of the second file carry the suffix \<open>_svc\<close>.

  An error object has a class (for \<^verbatim>\<open>instanceof SyntaxError\<close>), an optional numeric
  \<^verbatim>\<open>status\<close> and a message. A thrown value is \<open>None\<close> for \<^verbatim>\<open>undefined\<close>
  (what \<^verbatim>\<open>throw lastError\<close> throws when the loop body never ran).
\<close>

datatype error_class = Error | SyntaxError | TypeError | ApiError

record js_error =
  err_class :: error_class
  status :: "int option"
  message :: string

type_synonym thrown = "js_error option"

definition new_Error :: "string \<Rightarrow> js_error" where
  "new_Error msg = \<lparr>err_class = Error, status = None, message = msg\<rparr>"

definition new_TypeError :: "string \<Rightarrow> js_error" where
  "new_TypeError msg = \<lparr>err_class = TypeError, status = None, message = msg\<rparr>"

definition new_SyntaxError :: "string \<Rightarrow> js_error" where
  "new_SyntaxError msg = \<lparr>err_class = SyntaxError, status = None, message = msg\<rparr>"

text \<open>\<^verbatim>\<open>error instanceof SyntaxError\<close>; false for \<^verbatim>\<open>undefined\<close>.\<close>

definition instanceof_SyntaxError :: "thrown \<Rightarrow> bool" where
  "instanceof_SyntaxError t = (case t of None \<Rightarrow> False | Some e \<Rightarrow> err_class e = SyntaxError)"

text \<open>
  Values produced by \<^verbatim>\<open>JSON.parse\<close>. Numbers are rationals (JSON has no NaN or
  infinity); an object is its list of properties.
\<close>

datatype json =
    JNull
  | JBool bool
  | JNum rat
  | JStr string
  | JArr "json list"
  | JObj "(string \<times> json) list"

text \<open>JavaScript truthiness of a parsed value, and of a property that may be absent.\<close>

fun truthy :: "json \<Rightarrow> bool" where
  "truthy JNull = False"
| "truthy (JBool b) = b"
| "truthy (JNum n) = (n \<noteq> 0)"
| "truthy (JStr s) = (s \<noteq> [])"
| "truthy (JArr xs) = True"
| "truthy (JObj kvs) = True"

definition truthy_prop :: "json option \<Rightarrow> bool" where
  "truthy_prop p = (case p of None \<Rightarrow> False | Some v \<Rightarrow> truthy v)"

text \<open>
  Reading a named property \<^verbatim>\<open>v.key\<close> for the keys the service reads
  (\<^verbatim>\<open>healthScore\<close>, \<^verbatim>\<open>summary\<close>, \<^verbatim>\<open>predictions\<close>, \<^verbatim>\<open>tips\<close>): a TypeError
  on \<^verbatim>\<open>null\<close>, \<^verbatim>\<open>undefined\<close> on every other non-object.
\<close>

fun get_prop :: "json \<Rightarrow> string \<Rightarrow> js_error + json option" where
  "get_prop JNull key = Inl (new_TypeError ''Cannot read properties of null'')"
| "get_prop (JObj kvs) key = Inr (map_of kvs key)"
| "get_prop v key = Inr None"

text \<open>\<^verbatim>\<open>String.prototype.trim\<close> on ASCII white space.\<close>

definition is_space :: "char \<Rightarrow> bool" where
  "is_space c = (c \<in> set [CHR 0x20, CHR 0x09, CHR 0x0A, CHR 0x0B, CHR 0x0C, CHR 0x0D])"

definition trim :: "string \<Rightarrow> string" where
  "trim s = rev (dropWhile is_space (rev (dropWhile is_space s)))"

section \<open>Requests, responses and the world\<close>

datatype api_client = ai | aiAnalyze | aiSymptoms | aiChat | aiTTS | aiMaps

datatype schema = analysisSchema | symptomPredictionSchema | healthTipsSchema

text \<open>The \<^verbatim>\<open>required\<close> array of each top-level schema object.\<close>

fun required :: "schema \<Rightarrow> string list" where
  "required analysisSchema = [''summary'', ''predictions'', ''healthScore'', ''recommendations'']"
| "required symptomPredictionSchema = [''predictions'']"
| "required healthTipsSchema = [''tips'']"

datatype part = Text string | InlineData "string option" string

datatype contents = Prompt string | Parts "part list" | Contents "part list list"

type_synonym history = "(string \<times> string list) list"

datatype config =
    JsonConfig schema
  | SpeechConfig "string option"
  | MapsConfig "(rat \<times> rat) option"
  | ChatConfig string "history option"

record request =
  client :: api_client
  model :: string
  contents :: contents
  config :: config

record maps_ref =
  maps_uri :: "string option"
  maps_title :: "string option"

record chunk =
  maps :: "maps_ref option"

text \<open>
  What the service reads of a provider response: \<^verbatim>\<open>response.text\<close>,
  \<^verbatim>\<open>response.candidates?.[0]?.content?.parts?.[0]?.inlineData?.data\<close> and
  \<^verbatim>\<open>response.candidates?.[0]?.groundingMetadata?.groundingChunks\<close>, each \<open>None\<close>
  when the access yields \<^verbatim>\<open>undefined\<close>.
\<close>

record response =
  resp_text :: "string option"
  inlineData :: "string option"
  groundingChunks :: "chunk list option"

text \<open>
  The environment: the provider's answer to the \<open>k\<close>-th request issued, the
  \<open>k\<close>-th value of \<^verbatim>\<open>Math.random()\<close>, \<^verbatim>\<open>JSON.parse\<close> (\<open>None\<close> for a
  SyntaxError), and the decimal rendering of a number in a template literal and by
  \<^verbatim>\<open>toFixed(0)\<close>. The world: the requests issued, the waits passed to
  \<^verbatim>\<open>setTimeout\<close>, the number of random draws, oldest first.
\<close>

record env =
  respond :: "nat \<Rightarrow> request \<Rightarrow> js_error + response"
  random :: "nat \<Rightarrow> rat"
  JSON_parse :: "string \<Rightarrow> json option"
  Number_toString :: "rat \<Rightarrow> string"
  Number_toFixed0 :: "rat \<Rightarrow> string"

record world =
  issued :: "request list"
  slept :: "rat list"
  draws :: nat

definition generateContent :: "env \<Rightarrow> request \<Rightarrow> world \<Rightarrow> (js_error + response) \<times> world" where
  "generateContent env req w =
     (respond env (length (issued w)) req, w\<lparr>issued := issued w @ [req]\<rparr>)"

definition Math_random :: "env \<Rightarrow> world \<Rightarrow> rat \<times> world" where
  "Math_random env w = (random env (draws w), w\<lparr>draws := Suc (draws w)\<rparr>)"

definition sleep :: "rat \<Rightarrow> world \<Rightarrow> world" where
  "sleep waitTime w = w\<lparr>slept := slept w @ [waitTime]\<rparr>"

section \<open>The retry wrapper\<close>

text \<open>
  \<^verbatim>\<open>error.status && error.status >= 500 && error.status < 600\<close>: a missing status
  and the status 0 are falsy.
\<close>

definition retryable :: "js_error \<Rightarrow> bool" where
  "retryable error =
     (case status error of
        None \<Rightarrow> False
      | Some s \<Rightarrow> s \<noteq> 0 \<and> 500 \<le> s \<and> s < 600)"

text \<open>
  The loop \<^verbatim>\<open>for (let i = 0; i < retries; i++)\<close> of \<^verbatim>\<open>src/unnamed/part_000\<close>; the
  first numeric argument is \<^verbatim>\<open>retries - i\<close>, the iterations left. Leaving the loop
  throws \<^verbatim>\<open>lastError\<close>. Console output is not modelled.
\<close>

fun retry_loop ::
  "env \<Rightarrow> (world \<Rightarrow> (js_error + 'a) \<times> world) \<Rightarrow> nat \<Rightarrow> rat \<Rightarrow> rat \<Rightarrow> thrown \<Rightarrow> world
     \<Rightarrow> (thrown + 'a) \<times> world" where
  "retry_loop env fn 0 delay jitter lastError w = (Inl lastError, w)"
| "retry_loop env fn (Suc n) delay jitter lastError w =
     (case fn w of
        (Inr v, w1) \<Rightarrow> (Inr v, w1)
      | (Inl error, w1) \<Rightarrow>
          if retryable error then
            (case Math_random env w1 of
               (r, w2) \<Rightarrow>
                 let jitterDelay = r * jitter;
                     waitTime = delay + jitterDelay
                 in retry_loop env fn n (delay * 2) jitter (Some error) (sleep waitTime w2))
          else (Inl (Some error), w1))"

definition retryWithBackoff ::
  "env \<Rightarrow> (world \<Rightarrow> (js_error + 'a) \<times> world) \<Rightarrow> nat \<Rightarrow> rat \<Rightarrow> rat \<Rightarrow> world
     \<Rightarrow> (thrown + 'a) \<times> world" where
  "retryWithBackoff env fn retries delay jitter w = retry_loop env fn retries delay jitter None w"

text \<open>The same loop in \<^verbatim>\<open>src/backend/services/geminiService.js\<close>: no jitter.\<close>

fun retry_loop_svc ::
  "(world \<Rightarrow> (js_error + 'a) \<times> world) \<Rightarrow> nat \<Rightarrow> rat \<Rightarrow> thrown \<Rightarrow> world
     \<Rightarrow> (thrown + 'a) \<times> world" where
  "retry_loop_svc fn 0 delay lastError w = (Inl lastError, w)"
| "retry_loop_svc fn (Suc n) delay lastError w =
     (case fn w of
        (Inr v, w1) \<Rightarrow> (Inr v, w1)
      | (Inl error, w1) \<Rightarrow>
          if retryable error then
            retry_loop_svc fn n (delay * 2) (Some error) (sleep delay w1)
          else (Inl (Some error), w1))"

definition retryWithBackoff_svc ::
  "(world \<Rightarrow> (js_error + 'a) \<times> world) \<Rightarrow> nat \<Rightarrow> rat \<Rightarrow> world \<Rightarrow> (thrown + 'a) \<times> world" where
  "retryWithBackoff_svc fn retries delay w = retry_loop_svc fn retries delay None w"

section \<open>Shared steps of the operations\<close>

text \<open>
  The two files differ in the retry wrapper (attempts, jitter) and in the client; the
  bodies of \<^verbatim>\<open>analyzeHealthReport\<close> and \<^verbatim>\<open>findHospitalsNearLocation\<close> are
  otherwise the same text, so each is written once over the wrapper and the client.
\<close>

type_synonym wrapper =
  "(world \<Rightarrow> (js_error + response) \<times> world) \<Rightarrow> world \<Rightarrow> (thrown + response) \<times> world"

definition wrapper_part_000 :: "env \<Rightarrow> wrapper" where
  "wrapper_part_000 env fn = retryWithBackoff env fn 5 1000 200"

definition wrapper_svc :: wrapper where
  "wrapper_svc fn = retryWithBackoff_svc fn 3 1000"

text \<open>
  \<^verbatim>\<open>const jsonText = response.text.trim(); const parsedJson = JSON.parse(jsonText);\<close>
\<close>

definition parse_response_text :: "env \<Rightarrow> response \<Rightarrow> thrown + json" where
  "parse_response_text env response =
     (case resp_text response of
        None \<Rightarrow> Inl (Some (new_TypeError ''Cannot read properties of undefined''))
      | Some t \<Rightarrow>
          (case JSON_parse env (trim t) of
             None \<Rightarrow> Inl (Some (new_SyntaxError ''Unexpected token''))
           | Some parsedJson \<Rightarrow> Inr parsedJson))"

definition or_default :: "string option \<Rightarrow> string \<Rightarrow> string" where
  "or_default v d = (case v of None \<Rightarrow> d | Some t \<Rightarrow> if t = [] then d else t)"

section \<open>Report analysis\<close>

record file_data =
  mimeType :: "string option"
  data :: "string option"

record report_input =
  reportText :: "string option"
  fileData :: "file_data option"

definition analysis_prompt :: string where
  "analysis_prompt = ''Analyze the provided medical report. Based on the data, generate a health analysis according to the provided JSON schema. The report content is either in the following text or in the attached PDF file.''"

definition file_payload :: "report_input \<Rightarrow> (string option \<times> string) option" where
  "file_payload inp =
     (case fileData inp of
        None \<Rightarrow> None
      | Some fd \<Rightarrow>
          (case data fd of
             None \<Rightarrow> None
           | Some d \<Rightarrow> if d = [] then None else Some (mimeType fd, d)))"

definition text_payload :: "report_input \<Rightarrow> string option" where
  "text_payload inp =
     (case reportText inp of
        None \<Rightarrow> None
      | Some t \<Rightarrow> if t = [] then None else Some t)"

definition analyze_contents :: "report_input \<Rightarrow> contents option" where
  "analyze_contents inp =
     (case file_payload inp of
        Some (mt, d) \<Rightarrow> Some (Parts [Text analysis_prompt, InlineData mt d])
      | None \<Rightarrow>
          (case text_payload inp of
             Some t \<Rightarrow>
               Some (Prompt (analysis_prompt @ [CHR 0x0A, CHR 0x0A] @ ''Here is the report:''
                               @ [CHR 0x0A, CHR 0x0A] @ t))
           | None \<Rightarrow> None))"

definition analysis_check :: "json \<Rightarrow> thrown + json" where
  "analysis_check parsedJson =
     (case get_prop parsedJson ''healthScore'' of
        Inl e \<Rightarrow> Inl (Some e)
      | Inr healthScore \<Rightarrow>
          if \<not> truthy_prop healthScore
          then Inl (Some (new_Error ''AI response is missing required fields.''))
          else (case get_prop parsedJson ''summary'' of
                  Inl e \<Rightarrow> Inl (Some e)
                | Inr summary \<Rightarrow>
                    if \<not> truthy_prop summary
                    then Inl (Some (new_Error ''AI response is missing required fields.''))
                    else Inr parsedJson))"

definition analysis_request :: "api_client \<Rightarrow> contents \<Rightarrow> request" where
  "analysis_request cl c =
     \<lparr>client = cl, model = ''gemini-2.5-flash'', contents = c, config = JsonConfig analysisSchema\<rparr>"

definition analyzeHealthReport_try ::
  "wrapper \<Rightarrow> api_client \<Rightarrow> env \<Rightarrow> report_input \<Rightarrow> world \<Rightarrow> (thrown + json) \<times> world" where
  "analyzeHealthReport_try retry cl env inp w =
     (case analyze_contents inp of
        None \<Rightarrow> (Inl (Some (new_Error ''No report data provided to analyze.'')), w)
      | Some c \<Rightarrow>
          (case retry (generateContent env (analysis_request cl c)) w of
             (Inl e, w1) \<Rightarrow> (Inl e, w1)
           | (Inr response, w1) \<Rightarrow>
               (case parse_response_text env response of
                  Inl e \<Rightarrow> (Inl e, w1)
                | Inr parsedJson \<Rightarrow> (analysis_check parsedJson, w1))))"

definition analysis_parse_failure :: js_error where
  "analysis_parse_failure =
     new_Error ''Failed to parse the AI's JSON response. The model may have returned an unexpected format.''"

definition analysis_failure :: js_error where
  "analysis_failure = new_Error ''Failed to get a valid analysis from the AI.''"

definition analyzeHealthReport_with ::
  "wrapper \<Rightarrow> api_client \<Rightarrow> env \<Rightarrow> report_input \<Rightarrow> world \<Rightarrow> (js_error + json) \<times> world" where
  "analyzeHealthReport_with retry cl env inp w =
     (case analyzeHealthReport_try retry cl env inp w of
        (Inr parsedJson, w1) \<Rightarrow> (Inr parsedJson, w1)
      | (Inl error, w1) \<Rightarrow>
          if instanceof_SyntaxError error
          then (Inl analysis_parse_failure, w1)
          else (Inl analysis_failure, w1))"

definition analyzeHealthReport ::
  "env \<Rightarrow> report_input \<Rightarrow> world \<Rightarrow> (js_error + json) \<times> world" where
  "analyzeHealthReport env = analyzeHealthReport_with (wrapper_part_000 env) aiAnalyze env"

definition analyzeHealthReport_svc ::
  "env \<Rightarrow> report_input \<Rightarrow> world \<Rightarrow> (js_error + json) \<times> world" where
  "analyzeHealthReport_svc env = analyzeHealthReport_with wrapper_svc ai env"

section \<open>Symptom prediction (\<^verbatim>\<open>src/unnamed/part_000\<close>)\<close>

text \<open>
  The user context as the template literals render it: \<open>age\<close> is the rendering of
  \<^verbatim>\<open>userContext.age\<close>; the other fields are \<open>None\<close> or empty when falsy.
\<close>

record user_context =
  age :: string
  weight :: "string option"
  medical_conditions :: "string option"
  symptoms :: "string option"

definition primaryModel :: string where
  "primaryModel = ''gemini-1.5-flash''"

definition fallbackModel :: string where
  "fallbackModel = ''gemini-pro''"

definition symptom_prompt :: "string \<Rightarrow> user_context option \<Rightarrow> string" where
  "symptom_prompt symptomsText userContext =
     ''You are an AI Symptom Checker. Analyze the following symptoms for a user and provide a list of potential diseases. For each disease, include its probability, a brief description, and the recommended medical specialist. IMPORTANT: This is for informational purposes only and is not a substitute for professional medical advice. Symptoms: ''
     @ [CHR 0x22] @ symptomsText @ [CHR 0x22]
     @ (case userContext of
          None \<Rightarrow> []
        | Some uc \<Rightarrow>
            [CHR 0x0A, CHR 0x0A] @ ''User context: Age: '' @ age uc
            @ '', Pre-existing conditions: '' @ or_default (medical_conditions uc) ''None'' @ ''.'')"

definition symptom_request :: "string \<Rightarrow> string \<Rightarrow> request" where
  "symptom_request prompt m =
     \<lparr>client = aiSymptoms, model = m, contents = Contents [ [Text prompt] ],
      config = JsonConfig symptomPredictionSchema\<rparr>"

definition generate :: "env \<Rightarrow> string \<Rightarrow> string \<Rightarrow> world \<Rightarrow> (thrown + response) \<times> world" where
  "generate env prompt m w =
     retryWithBackoff env (generateContent env (symptom_request prompt m)) 5 1000 200 w"

text \<open>
  The inner \<^verbatim>\<open>try\<close>: the primary model, and the fallback model when the error thrown
  has \<^verbatim>\<open>status === 503\<close>. Reading \<^verbatim>\<open>.status\<close> of \<^verbatim>\<open>undefined\<close> is a TypeError.
\<close>

definition generate_with_fallback ::
  "env \<Rightarrow> string \<Rightarrow> world \<Rightarrow> (thrown + response) \<times> world" where
  "generate_with_fallback env prompt w =
     (case generate env prompt primaryModel w of
        (Inr response, w1) \<Rightarrow> (Inr response, w1)
      | (Inl error, w1) \<Rightarrow>
          (case error of
             None \<Rightarrow> (Inl (Some (new_TypeError ''Cannot read properties of undefined'')), w1)
           | Some e \<Rightarrow>
               if status e = Some 503
               then generate env prompt fallbackModel w1
               else (Inl error, w1)))"

definition predictions_check :: "json \<Rightarrow> thrown + json" where
  "predictions_check parsedJson =
     (case get_prop parsedJson ''predictions'' of
        Inl e \<Rightarrow> Inl (Some e)
      | Inr predictions \<Rightarrow>
          if \<not> truthy_prop predictions
          then Inl (Some (new_Error ''AI response is missing the 'predictions' field.''))
          else Inr parsedJson)"

definition predictSymptomsFromText_try ::
  "env \<Rightarrow> string \<Rightarrow> user_context option \<Rightarrow> world \<Rightarrow> (thrown + json) \<times> world" where
  "predictSymptomsFromText_try env symptomsText userContext w =
     (case generate_with_fallback env (symptom_prompt symptomsText userContext) w of
        (Inl e, w1) \<Rightarrow> (Inl e, w1)
      | (Inr response, w1) \<Rightarrow>
          (case parse_response_text env response of
             Inl e \<Rightarrow> (Inl e, w1)
           | Inr parsedJson \<Rightarrow> (predictions_check parsedJson, w1)))"

definition symptoms_parse_failure :: js_error where
  "symptoms_parse_failure = new_Error ''Failed to parse the AI's JSON response for symptoms.''"

definition symptoms_failure :: js_error where
  "symptoms_failure = new_Error ''Failed to get a valid prediction from the AI.''"

definition predictSymptomsFromText ::
  "env \<Rightarrow> string \<Rightarrow> user_context option \<Rightarrow> world \<Rightarrow> (js_error + json) \<times> world" where
  "predictSymptomsFromText env symptomsText userContext w =
     (case predictSymptomsFromText_try env symptomsText userContext w of
        (Inr parsedJson, w1) \<Rightarrow> (Inr parsedJson, w1)
      | (Inl error, w1) \<Rightarrow>
          if instanceof_SyntaxError error
          then (Inl symptoms_parse_failure, w1)
          else (Inl symptoms_failure, w1))"

section \<open>Tip generation (\<^verbatim>\<open>src/unnamed/part_000\<close>)\<close>

text \<open>The argument typed as the front end's \<^verbatim>\<open>HealthReportAnalysis\<close>.\<close>

record prediction =
  disease :: string
  probability :: rat

record analysis_data =
  healthScore :: rat
  summary :: string
  predictions :: "prediction list"

fun join :: "string \<Rightarrow> string list \<Rightarrow> string" where
  "join sep [] = []"
| "join sep [x] = x"
| "join sep (x # y # ys) = x @ sep @ join sep (y # ys)"

definition potentialRisks :: "env \<Rightarrow> prediction list \<Rightarrow> string" where
  "potentialRisks env ps =
     join '', '' (map (\<lambda>p. disease p @ '' ('' @ Number_toFixed0 env (probability p * 100) @ ''% risk)'') ps)"

definition tips_prompt :: "env \<Rightarrow> analysis_data \<Rightarrow> string" where
  "tips_prompt env analysisData =
     (let nl = [CHR 0x0A]; ind = replicate 12 (CHR 0x20)
      in nl @ ind @ ''Based on the following health summary, generate 3-4 personalized, actionable, and encouraging health tips.''
       @ nl @ ind @ ''The tips should be directly related to the provided data. Be creative and helpful.''
       @ nl @ ind
       @ nl @ ind @ ''Health Score: '' @ Number_toString env (healthScore analysisData) @ ''/100''
       @ nl @ ind @ ''AI Summary: '' @ [CHR 0x22] @ summary analysisData @ [CHR 0x22]
       @ nl @ ind @ ''Potential Risks: ''
            @ or_default (Some (potentialRisks env (predictions analysisData))) ''None detected''
       @ nl @ ind
       @ nl @ ind @ ''Generate the tips according to the JSON schema.''
       @ nl @ replicate 8 (CHR 0x20))"

definition tips_request :: "string \<Rightarrow> request" where
  "tips_request prompt =
     \<lparr>client = aiAnalyze, model = ''gemini-2.5-flash'', contents = Prompt prompt,
      config = JsonConfig healthTipsSchema\<rparr>"

text \<open>\<^verbatim>\<open>!parsedJson.tips || !Array.isArray(parsedJson.tips)\<close>; the tips are returned.\<close>

definition tips_check :: "json \<Rightarrow> thrown + json" where
  "tips_check parsedJson =
     (case get_prop parsedJson ''tips'' of
        Inl e \<Rightarrow> Inl (Some e)
      | Inr tips \<Rightarrow>
          (case tips of
             Some (JArr xs) \<Rightarrow> Inr (JArr xs)
           | _ \<Rightarrow> Inl (Some (new_Error ''AI response for tips is in an invalid format.''))))"

definition generateHealthTips_try ::
  "env \<Rightarrow> analysis_data \<Rightarrow> world \<Rightarrow> (thrown + json) \<times> world" where
  "generateHealthTips_try env analysisData w =
     (case retryWithBackoff env (generateContent env (tips_request (tips_prompt env analysisData)))
             5 1000 200 w of
        (Inl e, w1) \<Rightarrow> (Inl e, w1)
      | (Inr response, w1) \<Rightarrow>
          (case parse_response_text env response of
             Inl e \<Rightarrow> (Inl e, w1)
           | Inr parsedJson \<Rightarrow> (tips_check parsedJson, w1)))"

definition tips_failure :: js_error where
  "tips_failure = new_Error ''Failed to generate health tips from the AI.''"

definition generateHealthTips ::
  "env \<Rightarrow> analysis_data \<Rightarrow> world \<Rightarrow> (js_error + json) \<times> world" where
  "generateHealthTips env analysisData w =
     (case generateHealthTips_try env analysisData w of
        (Inr tips, w1) \<Rightarrow> (Inr tips, w1)
      | (Inl error, w1) \<Rightarrow> (Inl tips_failure, w1))"

section \<open>Chat with voice output (\<^verbatim>\<open>src/unnamed/part_000\<close>)\<close>

text \<open>
  \<^verbatim>\<open>textToSpeech(text, voice, model)\<close> does not use its third parameter.
  \<^verbatim>\<open>chat.sendMessage({ message })\<close> is one request that carries the chat's model,
  system instruction and history.
\<close>

definition tts_request :: "string \<Rightarrow> string option \<Rightarrow> request" where
  "tts_request t v =
     \<lparr>client = aiTTS, model = ''gemini-2.5-flash-preview-tts'',
      contents = Contents [ [Text (''Say: '' @ t)] ], config = SpeechConfig v\<rparr>"

definition textToSpeech_try ::
  "env \<Rightarrow> string \<Rightarrow> string option \<Rightarrow> world \<Rightarrow> (thrown + string) \<times> world" where
  "textToSpeech_try env t v w =
     (case retryWithBackoff env (generateContent env (tts_request t v)) 5 1000 200 w of
        (Inl e, w1) \<Rightarrow> (Inl e, w1)
      | (Inr response, w1) \<Rightarrow>
          (case inlineData response of
             None \<Rightarrow> (Inl (Some (new_Error ''No audio data received from TTS API.'')), w1)
           | Some base64Audio \<Rightarrow>
               if base64Audio = []
               then (Inl (Some (new_Error ''No audio data received from TTS API.'')), w1)
               else (Inr base64Audio, w1)))"

text \<open>The \<^verbatim>\<open>catch\<close> returns \<^verbatim>\<open>null\<close> instead of throwing.\<close>

definition textToSpeech :: "env \<Rightarrow> string \<Rightarrow> string option \<Rightarrow> world \<Rightarrow> string option \<times> world" where
  "textToSpeech env t v w =
     (case textToSpeech_try env t v w of
        (Inr base64Audio, w1) \<Rightarrow> (Some base64Audio, w1)
      | (Inl error, w1) \<Rightarrow> (None, w1))"

record voice_config =
  enabled :: bool
  voice :: "string option"

record chat_result =
  response :: "string option"
  audio :: "string option"

definition systemInstruction :: "user_context option \<Rightarrow> string" where
  "systemInstruction userContext =
     ''You are a friendly and helpful AI health assistant providing information relevant to Nepal. You can answer general health questions. When providing emergency contact information, use Nepali emergency numbers (e.g., Police: 100, Ambulance: 102). You are not a doctor and must always remind the user to consult a healthcare professional for medical advice. Keep your answers concise and easy to understand. Do Not Reply if User Answers are Inappropriate or Irrelevant or out of Context. Answer only Medical Related Questions.''
     @ (case userContext of
          None \<Rightarrow> []
        | Some uc \<Rightarrow>
            '' Personalize your response for the following user: Age: '' @ age uc
            @ '', Weight: '' @ or_default (weight uc) ''N/A''
            @ ''kg. Pre-existing conditions: '' @ or_default (medical_conditions uc) ''None''
            @ ''. Current symptoms: '' @ or_default (symptoms uc) ''None'' @ ''.'')"

definition chat_request :: "string \<Rightarrow> history option \<Rightarrow> user_context option \<Rightarrow> request" where
  "chat_request msg hist userContext =
     \<lparr>client = aiChat, model = ''gemini-1.5-flash'', contents = Prompt msg,
      config = ChatConfig (systemInstruction userContext) hist\<rparr>"

text \<open>
  The \<^verbatim>\<open>try\<close> block. \<^verbatim>\<open>voiceConfig\<close> is \<open>None\<close> when the caller passed
  \<^verbatim>\<open>undefined\<close>: reading \<^verbatim>\<open>.enabled\<close> is then a TypeError.
\<close>

definition getChatResponse_try ::
  "env \<Rightarrow> string \<Rightarrow> history option \<Rightarrow> user_context option \<Rightarrow> voice_config option \<Rightarrow> world
     \<Rightarrow> (thrown + chat_result) \<times> world" where
  "getChatResponse_try env msg hist userContext voiceConfig w =
     (case retryWithBackoff env (generateContent env (chat_request msg hist userContext))
             5 1000 200 w of
        (Inl e, w1) \<Rightarrow> (Inl e, w1)
      | (Inr resp, w1) \<Rightarrow>
          (case voiceConfig of
             None \<Rightarrow> (Inl (Some (new_TypeError ''Cannot read properties of undefined'')), w1)
           | Some vc \<Rightarrow>
               (case resp_text resp of
                  Some responseText \<Rightarrow>
                    if enabled vc \<and> responseText \<noteq> []
                    then (case textToSpeech env responseText (voice vc) w1 of
                            (a, w2) \<Rightarrow> (Inr \<lparr>response = Some responseText, audio = a\<rparr>, w2))
                    else (Inr \<lparr>response = Some responseText, audio = None\<rparr>, w1)
                | None \<Rightarrow> (Inr \<lparr>response = None, audio = None\<rparr>, w1))))"

definition chat_failure :: js_error where
  "chat_failure = new_Error ''Could not get a response from the assistant.''"

definition getChatResponse ::
  "env \<Rightarrow> string \<Rightarrow> history option \<Rightarrow> user_context option \<Rightarrow> voice_config option \<Rightarrow> world
     \<Rightarrow> (js_error + chat_result) \<times> world" where
  "getChatResponse env msg hist userContext voiceConfig w =
     (case getChatResponse_try env msg hist userContext voiceConfig w of
        (Inr result, w1) \<Rightarrow> (Inr result, w1)
      | (Inl error, w1) \<Rightarrow> (Inl chat_failure, w1))"

section \<open>Hospital lookup\<close>

record hospital_input =
  latitude :: "rat option"
  longitude :: "rat option"
  query :: "string option"

record hospital =
  name :: string
  uri :: string

record hospitals_result =
  summary_text :: string
  hospitals :: "hospital list"

text \<open>
  \<^verbatim>\<open>latitude && longitude\<close> and \<^verbatim>\<open>query\<close> as conditions: the coordinates when
  both are truthy (the number 0 is falsy), the query when it is a non-empty string.
\<close>

definition coordinates :: "hospital_input \<Rightarrow> (rat \<times> rat) option" where
  "coordinates inp =
     (case latitude inp of
        None \<Rightarrow> None
      | Some lat \<Rightarrow>
          (case longitude inp of
             None \<Rightarrow> None
           | Some lon \<Rightarrow> if lat \<noteq> 0 \<and> lon \<noteq> 0 then Some (lat, lon) else None))"

definition query_text :: "hospital_input \<Rightarrow> string option" where
  "query_text inp =
     (case query inp of
        None \<Rightarrow> None
      | Some q \<Rightarrow> if q = [] then None else Some q)"

definition hospital_request :: "hospital_input \<Rightarrow> (contents \<times> config) option" where
  "hospital_request inp =
     (case coordinates inp of
        Some latLng \<Rightarrow>
          Some (Prompt (case query_text inp of
                          Some q \<Rightarrow> q @ ''. Provide a brief summary and list them.''
                        | None \<Rightarrow> ''What hospitals are nearby my current location? Provide a brief summary and list them.''),
                MapsConfig (Some latLng))
      | None \<Rightarrow>
          (case query_text inp of
             Some q \<Rightarrow>
               Some (Prompt (''What hospitals are near '' @ q
                             @ ''? Provide a brief summary and list them.''), MapsConfig None)
           | None \<Rightarrow> None))"

text \<open>
  \<^verbatim>\<open>.filter(chunk => chunk.maps && chunk.maps.uri && chunk.maps.title).map(...)\<close>: a
  chunk passes the filter exactly when \<open>chunk_hospital\<close> is \<open>Some\<close>, and is then mapped
  to its title and URI.
\<close>

definition chunk_hospital :: "chunk \<Rightarrow> hospital option" where
  "chunk_hospital c =
     (case maps c of
        None \<Rightarrow> None
      | Some m \<Rightarrow>
          (case maps_uri m of
             None \<Rightarrow> None
           | Some u \<Rightarrow>
               if u = [] then None
               else (case maps_title m of
                       None \<Rightarrow> None
                     | Some t \<Rightarrow> if t = [] then None else Some \<lparr>name = t, uri = u\<rparr>)))"

text \<open>\<^verbatim>\<open>(chunks || [])\<close>\<close>

definition chunks_or_empty :: "chunk list option \<Rightarrow> chunk list" where
  "chunks_or_empty chunks = (case chunks of None \<Rightarrow> [] | Some cs \<Rightarrow> cs)"

definition hospitals_of :: "chunk list option \<Rightarrow> hospital list" where
  "hospitals_of chunks = List.map_filter chunk_hospital (chunks_or_empty chunks)"

definition hospitals_request :: "api_client \<Rightarrow> contents \<Rightarrow> config \<Rightarrow> request" where
  "hospitals_request cl c cfg =
     \<lparr>client = cl, model = ''gemini-2.5-flash'', contents = c, config = cfg\<rparr>"

definition findHospitalsNearLocation_try ::
  "wrapper \<Rightarrow> api_client \<Rightarrow> env \<Rightarrow> hospital_input \<Rightarrow> world
     \<Rightarrow> (thrown + hospitals_result) \<times> world" where
  "findHospitalsNearLocation_try retry cl env inp w =
     (case hospital_request inp of
        None \<Rightarrow> (Inl (Some (new_Error ''No location data provided to find hospitals.'')), w)
      | Some (c, cfg) \<Rightarrow>
          (case retry (generateContent env (hospitals_request cl c cfg)) w of
             (Inl e, w1) \<Rightarrow> (Inl e, w1)
           | (Inr resp, w1) \<Rightarrow>
               (Inr \<lparr>summary_text =
                        or_default (resp_text resp) ''Here are some hospitals found near your location.'',
                      hospitals = hospitals_of (groundingChunks resp)\<rparr>, w1)))"

definition hospitals_failure :: js_error where
  "hospitals_failure = new_Error ''Failed to get hospital data from the AI.''"

definition findHospitalsNearLocation_with ::
  "wrapper \<Rightarrow> api_client \<Rightarrow> env \<Rightarrow> hospital_input \<Rightarrow> world
     \<Rightarrow> (js_error + hospitals_result) \<times> world" where
  "findHospitalsNearLocation_with retry cl env inp w =
     (case findHospitalsNearLocation_try retry cl env inp w of
        (Inr result, w1) \<Rightarrow> (Inr result, w1)
      | (Inl error, w1) \<Rightarrow> (Inl hospitals_failure, w1))"

definition findHospitalsNearLocation ::
  "env \<Rightarrow> hospital_input \<Rightarrow> world \<Rightarrow> (js_error + hospitals_result) \<times> world" where
  "findHospitalsNearLocation env = findHospitalsNearLocation_with (wrapper_part_000 env) aiMaps env"

definition findHospitalsNearLocation_svc ::
  "env \<Rightarrow> hospital_input \<Rightarrow> world \<Rightarrow> (js_error + hospitals_result) \<times> world" where
  "findHospitalsNearLocation_svc env = findHospitalsNearLocation_with wrapper_svc ai env"

section \<open>Observations and test fixtures\<close>

text \<open>An attempt that failed with a status in the range 500 to 599.\<close>

definition failed5xx :: "js_error + 'a \<Rightarrow> bool" where
  "failed5xx out = (case out of Inl e \<Rightarrow> retryable e | Inr v \<Rightarrow> False)"

text \<open>The number of requests issued so far that name a given model.\<close>

definition calls_to :: "string \<Rightarrow> world \<Rightarrow> nat" where
  "calls_to m w = length (filter (\<lambda>req. model req = m) (issued w))"

text \<open>
  A provider that answers the \<open>k\<close>-th request with the \<open>k\<close>-th entry of a script,
  a fixed random source, and a parser given by a table of texts.
\<close>

definition w0 :: world where
  "w0 = \<lparr>issued = [], slept = [], draws = 0\<rparr>"

definition api_error :: "int \<Rightarrow> string \<Rightarrow> js_error" where
  "api_error s msg = \<lparr>err_class = ApiError, status = Some s, message = msg\<rparr>"

definition text_response :: "string \<Rightarrow> response" where
  "text_response t = \<lparr>resp_text = Some t, inlineData = None, groundingChunks = None\<rparr>"

definition scripted :: "(js_error + response) list \<Rightarrow> nat \<Rightarrow> request \<Rightarrow> js_error + response" where
  "scripted outs k req =
     (if k < length outs then outs ! k else Inl (api_error 400 ''script exhausted''))"

definition test_env :: "(js_error + response) list \<Rightarrow> (string \<times> json) list \<Rightarrow> env" where
  "test_env outs table =
     \<lparr>respond = scripted outs, random = (\<lambda>k. 1 / 2), JSON_parse = map_of table,
      Number_toString = (\<lambda>x. ''80''), Number_toFixed0 = (\<lambda>x. ''10'')\<rparr>"

definition test_request :: request where
  "test_request = analysis_request aiAnalyze (Prompt ''report'')"

definition env_503_429 :: env where
  "env_503_429 = test_env [Inl (api_error 503 ''overloaded''), Inl (api_error 429 ''quota'')] []"

definition env_503_network :: env where
  "env_503_network = test_env [Inl (api_error 503 ''overloaded''), Inl (new_TypeError ''fetch failed'')] []"

definition env_503_thrice :: env where
  "env_503_thrice =
     test_env [Inl (api_error 503 ''first''), Inl (api_error 503 ''second''),
               Inl (api_error 503 ''third'')] []"

definition env_503_503_ok :: env where
  "env_503_503_ok =
     test_env [Inl (api_error 503 ''first''), Inl (api_error 503 ''second''),
               Inr (text_response ''ok'')] []"

definition env_503_six_then_ok :: env where
  "env_503_six_then_ok =
     test_env (replicate 6 (Inl (api_error 503 ''overloaded'')) @ [Inr (text_response ''{}'')])
       [(''{}'', JObj [])]"

definition no_report :: report_input where
  "no_report = \<lparr>reportText = None, fileData = None\<rparr>"

definition no_location :: hospital_input where
  "no_location = \<lparr>latitude = None, longitude = None, query = None\<rparr>"

definition partial_text :: string where
  "partial_text = ''{'' @ [CHR 0x22] @ ''healthScore'' @ [CHR 0x22] @ '':80,''
                    @ [CHR 0x22] @ ''summary'' @ [CHR 0x22] @ '':'' @ [CHR 0x22] @ ''ok'' @ [CHR 0x22] @ ''}''"

definition partial_json :: json where
  "partial_json = JObj [(''healthScore'', JNum 80), (''summary'', JStr ''ok'')]"

definition full_text :: string where
  "full_text = ''{'' @ [CHR 0x22] @ ''summary'' @ [CHR 0x22] @ '':'' @ [CHR 0x22] @ ''ok'' @ [CHR 0x22]
                 @ '','' @ [CHR 0x22] @ ''predictions'' @ [CHR 0x22] @ '':[],''
                 @ [CHR 0x22] @ ''healthScore'' @ [CHR 0x22] @ '':80,''
                 @ [CHR 0x22] @ ''recommendations'' @ [CHR 0x22] @ '':[]}''"

definition full_json :: json where
  "full_json = JObj [(''summary'', JStr ''ok''), (''predictions'', JArr []),
                     (''healthScore'', JNum 80), (''recommendations'', JArr [])]"

definition zero_text :: string where
  "zero_text = ''{'' @ [CHR 0x22] @ ''summary'' @ [CHR 0x22] @ '':'' @ [CHR 0x22] @ ''critical'' @ [CHR 0x22]
                 @ '','' @ [CHR 0x22] @ ''predictions'' @ [CHR 0x22] @ '':[],''
                 @ [CHR 0x22] @ ''healthScore'' @ [CHR 0x22] @ '':0,''
                 @ [CHR 0x22] @ ''recommendations'' @ [CHR 0x22] @ '':[]}''"

definition zero_json :: json where
  "zero_json = JObj [(''summary'', JStr ''critical''), (''predictions'', JArr []),
                     (''healthScore'', JNum 0), (''recommendations'', JArr [])]"

definition json_table :: "(string \<times> json) list" where
  "json_table = [(partial_text, partial_json), (full_text, full_json), (zero_text, zero_json)]"

definition text_report :: report_input where
  "text_report = \<lparr>reportText = Some ''Hb 13.5 g/dL'', fileData = None\<rparr>"

definition text_report_contents :: contents where
  "text_report_contents =
     Prompt (analysis_prompt @ [CHR 0x0A, CHR 0x0A] @ ''Here is the report:''
               @ [CHR 0x0A, CHR 0x0A] @ ''Hb 13.5 g/dL'')"

definition env_partial :: env where
  "env_partial = test_env [Inr (text_response (''  '' @ partial_text @ [CHR 0x0A]))] json_table"

definition env_full :: env where
  "env_full = test_env [Inr (text_response full_text)] json_table"

definition env_zero :: env where
  "env_zero = test_env [Inr (text_response zero_text)] json_table"

definition env_not_json :: env where
  "env_not_json = test_env [Inr (text_response ''not json'')] json_table"

definition env_503_always :: env where
  "env_503_always = test_env (replicate 5 (Inl (api_error 503 ''overloaded''))) json_table"

definition sample_analysis :: analysis_data where
  "sample_analysis = \<lparr>healthScore = 80, summary = ''ok'', predictions = []\<rparr>"

definition env_chat_no_voice :: env where
  "env_chat_no_voice =
     test_env [Inr (text_response ''Drink water.''), Inl (api_error 400 ''voice unavailable'')] []"

definition voice_on :: voice_config where
  "voice_on = \<lparr>enabled = True, voice = Some ''Kore''\<rparr>"

definition kathmandu :: hospital_input where
  "kathmandu = \<lparr>latitude = Some (277 / 10), longitude = Some (853 / 10), query = None\<rparr>"

definition kathmandu_contents :: contents where
  "kathmandu_contents =
     Prompt ''What hospitals are nearby my current location? Provide a brief summary and list them.''"

definition kathmandu_config :: config where
  "kathmandu_config = MapsConfig (Some (277 / 10, 853 / 10))"

definition chunk_bir :: chunk where
  "chunk_bir = \<lparr>maps = Some \<lparr>maps_uri = Some ''https://maps.example/bir'',
                              maps_title = Some ''Bir Hospital''\<rparr>\<rparr>"

definition chunk_no_uri :: chunk where
  "chunk_no_uri = \<lparr>maps = Some \<lparr>maps_uri = None, maps_title = Some ''Clinic''\<rparr>\<rparr>"

definition chunk_no_maps :: chunk where
  "chunk_no_maps = \<lparr>maps = None\<rparr>"

definition maps_response :: response where
  "maps_response = \<lparr>resp_text = Some ''Nearby hospitals'', inlineData = None,
                    groundingChunks = Some [chunk_bir, chunk_no_uri, chunk_no_maps]\<rparr>"

definition env_maps :: env where
  "env_maps = test_env [Inr maps_response] []"

definition env_no_chunks :: env where
  "env_no_chunks = test_env [Inr (text_response ''None found'')] []"

section \<open>Properties of the retry wrapper\<close>

lemmas fixture_defs = test_env_def scripted_def w0_def api_error_def failed5xx_def retryable_def

lemmas run_defs = retryWithBackoff_def generateContent_def Math_random_def sleep_def

lemmas json_fixture_defs = json_table_def partial_text_def partial_json_def full_text_def
  full_json_def zero_text_def zero_json_def

text \<open>
  The wrapped function of every call site issues one provider request, so the lemmas are
  stated for \<open>generateContent env req\<close>. Attempt \<open>i\<close> of a call that starts in
  world \<open>w\<close> is answered by \<open>respond env (length (issued w) + i) req\<close>. The first three
  lemmas are the three ways one iteration of the loop can go.
\<close>

lemma retry_loop_success:
  "respond env (length (issued w)) req = Inr v \<Longrightarrow>
   retry_loop env (generateContent env req) (Suc n) d j le w = (Inr v, w\<lparr>issued := issued w @ [req]\<rparr>)"
  by (simp add: generateContent_def)

lemma retry_loop_fatal:
  "respond env (length (issued w)) req = Inl e \<Longrightarrow> \<not> retryable e \<Longrightarrow>
   retry_loop env (generateContent env req) (Suc n) d j le w = (Inl (Some e), w\<lparr>issued := issued w @ [req]\<rparr>)"
  by (simp add: generateContent_def)

lemma retry_loop_again:
  "respond env (length (issued w)) req = Inl e \<Longrightarrow> retryable e \<Longrightarrow>
   retry_loop env (generateContent env req) (Suc n) d j le w =
   retry_loop env (generateContent env req) n (d * 2) j (Some e)
     (w\<lparr>issued := issued w @ [req], draws := Suc (draws w),
        slept := slept w @ [d + random env (draws w) * j]\<rparr>)"
  by (simp add: generateContent_def Math_random_def sleep_def)

lemma retry_loop_stop:
  assumes "k < n"
    and "\<forall>i<k. failed5xx (respond env (length (issued w) + i) req)"
    and "respond env (length (issued w) + k) req = Inl e"
    and "\<not> retryable e"
  shows "fst (retry_loop env (generateContent env req) n d j le w) = Inl (Some e)
       \<and> issued (snd (retry_loop env (generateContent env req) n d j le w)) = issued w @ replicate (Suc k) req
       \<and> length (slept (snd (retry_loop env (generateContent env req) n d j le w))) = length (slept w) + k"
  using assms
proof (induction k arbitrary: n d le w)
  case 0
  then obtain n' where n: "n = Suc n'" by (cases n) auto
  from 0 have "respond env (length (issued w)) req = Inl e" by simp
  from retry_loop_fatal[OF this \<open>\<not> retryable e\<close>, of n' d j le]
  show ?case unfolding n by simp
next
  case (Suc k)
  then obtain n' where n: "n = Suc n'" by (cases n) auto
  from Suc.prems(2) have "failed5xx (respond env (length (issued w) + 0) req)" by blast
  then obtain e0 where e0: "respond env (length (issued w)) req = Inl e0" "retryable e0"
    by (auto simp: failed5xx_def split: sum.splits)
  let ?w = "w\<lparr>issued := issued w @ [req], draws := Suc (draws w),
        slept := slept w @ [d + random env (draws w) * j]\<rparr>"
  have a: "k < n'" using Suc.prems(1) n by simp
  have b: "\<forall>i<k. failed5xx (respond env (length (issued ?w) + i) req)"
    using Suc.prems(2) by auto
  have c: "respond env (length (issued ?w) + k) req = Inl e" using Suc.prems(3) by simp
  note ih = Suc.IH[OF a b c Suc.prems(4), of "d * 2" "Some e0"]
  show ?case unfolding n retry_loop_again[OF e0]
    using ih by (simp add: replicate_app_Cons_same)
qed

lemma retry_loop_exhaust:
  assumes "\<forall>i<Suc n. failed5xx (respond env (length (issued w) + i) req)"
  shows "\<exists>e. respond env (length (issued w) + n) req = Inl e
       \<and> fst (retry_loop env (generateContent env req) (Suc n) d j le w) = Inl (Some e)
       \<and> issued (snd (retry_loop env (generateContent env req) (Suc n) d j le w)) = issued w @ replicate (Suc n) req"
  using assms
proof (induction n arbitrary: d le w)
  case 0
  then have "failed5xx (respond env (length (issued w) + 0) req)" by blast
  then obtain e0 where e0: "respond env (length (issued w)) req = Inl e0" "retryable e0"
    by (auto simp: failed5xx_def split: sum.splits)
  show ?case unfolding retry_loop_again[OF e0] using e0 by simp
next
  case (Suc n)
  then have "failed5xx (respond env (length (issued w) + 0) req)" by blast
  then obtain e0 where e0: "respond env (length (issued w)) req = Inl e0" "retryable e0"
    by (auto simp: failed5xx_def split: sum.splits)
  let ?w = "w\<lparr>issued := issued w @ [req], draws := Suc (draws w),
        slept := slept w @ [d + random env (draws w) * j]\<rparr>"
  have b: "\<forall>i<Suc n. failed5xx (respond env (length (issued ?w) + i) req)"
    using Suc.prems by auto
  from Suc.IH[OF b, of "d * 2" "Some e0"]
  show ?case unfolding retry_loop_again[OF e0]
    by (simp add: replicate_app_Cons_same)
qed

text \<open>
  The whole run: \<open>m\<close> attempts were made, the first \<open>s\<close> of them failed with a 5xx
  status and were each followed by one sleep; either the budget ran out (\<open>s = m = n\<close>) or
  attempt \<open>s\<close> ended the loop with its own outcome.
\<close>

lemma retry_loop_trace:
  assumes "retry_loop env (generateContent env req) n d j le w = (r, w')"
  shows "\<exists>s m. s \<le> m \<and> m \<le> n \<and> m \<le> Suc s
     \<and> issued w' = issued w @ replicate m req
     \<and> draws w' = draws w + s
     \<and> slept w' = slept w @ map (\<lambda>i. d * 2 ^ i + random env (draws w + i) * j) [0..<s]
     \<and> (\<forall>i<s. failed5xx (respond env (length (issued w) + i) req))
     \<and> (s < m \<longrightarrow> \<not> failed5xx (respond env (length (issued w) + s) req))
     \<and> (s < m \<longrightarrow> r = (case respond env (length (issued w) + s) req of
                            Inl e \<Rightarrow> Inl (Some e) | Inr v \<Rightarrow> Inr v))
     \<and> (s = m \<longrightarrow> m = n \<and> (if m = 0 then r = Inl le
               else \<exists>e. respond env (length (issued w) + (m - 1)) req = Inl e \<and> r = Inl (Some e)))"
  using assms
proof (induction n arbitrary: d le w)
  case 0
  then show ?case by (intro exI[of _ 0]) simp
next
  case (Suc n)
  show ?case
  proof (cases "failed5xx (respond env (length (issued w)) req)")
    case False
    then have "w' = w\<lparr>issued := issued w @ [req]\<rparr>"
      and "r = (case respond env (length (issued w)) req of Inl e \<Rightarrow> Inl (Some e) | Inr v \<Rightarrow> Inr v)"
      using Suc.prems by (auto simp: failed5xx_def generateContent_def split: sum.splits)
    with False show ?thesis
      by (intro exI[of _ 0] exI[of _ "Suc 0"]) simp
  next
    case True
    then obtain e0 where e0: "respond env (length (issued w)) req = Inl e0" "retryable e0"
      by (auto simp: failed5xx_def split: sum.splits)
    let ?w = "w\<lparr>issued := issued w @ [req], draws := Suc (draws w),
        slept := slept w @ [d + random env (draws w) * j]\<rparr>"
    from Suc.prems have "retry_loop env (generateContent env req) n (d * 2) j (Some e0) ?w = (r, w')"
      unfolding retry_loop_again[OF e0] .
    from Suc.IH[OF this] obtain s m where sm: "s \<le> m" "m \<le> n" "m \<le> Suc s"
      "issued w' = issued ?w @ replicate m req"
      "draws w' = draws ?w + s"
      "slept w' = slept ?w @ map (\<lambda>i. d * 2 * 2 ^ i + random env (draws ?w + i) * j) [0..<s]"
      "\<forall>i<s. failed5xx (respond env (length (issued ?w) + i) req)"
      "s < m \<longrightarrow> \<not> failed5xx (respond env (length (issued ?w) + s) req)"
      "s < m \<longrightarrow> r = (case respond env (length (issued ?w) + s) req of
                            Inl e \<Rightarrow> Inl (Some e) | Inr v \<Rightarrow> Inr v)"
      "s = m \<longrightarrow> m = n \<and> (if m = 0 then r = Inl (Some e0)
               else \<exists>e. respond env (length (issued ?w) + (m - 1)) req = Inl e \<and> r = Inl (Some e))"
      by blast
    have ex: "Suc s = Suc m \<longrightarrow> Suc m = Suc n \<and>
         (\<exists>e. respond env (length (issued w) + (Suc m - 1)) req = Inl e \<and> r = Inl (Some e))"
    proof (cases "m = 0")
      case True
      with sm(10) e0 show ?thesis by auto
    next
      case False
      then obtain m' where "m = Suc m'" by (cases m) auto
      with sm(10) show ?thesis by auto
    qed
    have sl: "slept w' = slept w @ map (\<lambda>i. d * 2 ^ i + random env (draws w + i) * j) [0..<Suc s]"
      unfolding sm(6) by (simp add: map_upt_Suc del: upt_Suc)
    have al: "\<forall>i<Suc s. failed5xx (respond env (length (issued w) + i) req)"
    proof (intro allI impI)
      fix i assume "i < Suc s"
      show "failed5xx (respond env (length (issued w) + i) req)"
      proof (cases i)
        case 0 then show ?thesis using True by simp
      next
        case (Suc i')
        with \<open>i < Suc s\<close> sm(7) show ?thesis by auto
      qed
    qed
    show ?thesis
      apply (rule exI[of _ "Suc s"], rule exI[of _ "Suc m"])
      using sm(1,2,3,4,5,8,9) sl al ex
      by (simp add: replicate_app_Cons_same)
  qed
qed

lemma retry_loop_svc_fatal:
  "respond env (length (issued w)) req = Inl e \<Longrightarrow> \<not> retryable e \<Longrightarrow>
   retry_loop_svc (generateContent env req) (Suc n) d le w = (Inl (Some e), w\<lparr>issued := issued w @ [req]\<rparr>)"
  by (simp add: generateContent_def)

lemma retry_loop_svc_again:
  "respond env (length (issued w)) req = Inl e \<Longrightarrow> retryable e \<Longrightarrow>
   retry_loop_svc (generateContent env req) (Suc n) d le w =
   retry_loop_svc (generateContent env req) n (d * 2) (Some e)
     (w\<lparr>issued := issued w @ [req], slept := slept w @ [d]\<rparr>)"
  by (simp add: generateContent_def sleep_def)

lemma retry_loop_svc_stop:
  assumes "k < n"
    and "\<forall>i<k. failed5xx (respond env (length (issued w) + i) req)"
    and "respond env (length (issued w) + k) req = Inl e"
    and "\<not> retryable e"
  shows "fst (retry_loop_svc (generateContent env req) n d le w) = Inl (Some e)
       \<and> issued (snd (retry_loop_svc (generateContent env req) n d le w)) = issued w @ replicate (Suc k) req
       \<and> length (slept (snd (retry_loop_svc (generateContent env req) n d le w))) = length (slept w) + k"
  using assms
proof (induction k arbitrary: n d le w)
  case 0
  then obtain n' where n: "n = Suc n'" by (cases n) auto
  from 0 have "respond env (length (issued w)) req = Inl e" by simp
  from retry_loop_svc_fatal[OF this \<open>\<not> retryable e\<close>, of n' d le]
  show ?case unfolding n by simp
next
  case (Suc k)
  then obtain n' where n: "n = Suc n'" by (cases n) auto
  from Suc.prems(2) have "failed5xx (respond env (length (issued w) + 0) req)" by blast
  then obtain e0 where e0: "respond env (length (issued w)) req = Inl e0" "retryable e0"
    by (auto simp: failed5xx_def split: sum.splits)
  let ?w = "w\<lparr>issued := issued w @ [req], slept := slept w @ [d]\<rparr>"
  have a: "k < n'" using Suc.prems(1) n by simp
  have b: "\<forall>i<k. failed5xx (respond env (length (issued ?w) + i) req)"
    using Suc.prems(2) by auto
  have c: "respond env (length (issued ?w) + k) req = Inl e" using Suc.prems(3) by simp
  note ih = Suc.IH[OF a b c Suc.prems(4), of "d * 2" "Some e0"]
  show ?case unfolding n retry_loop_svc_again[OF e0]
    using ih by (simp add: replicate_app_Cons_same)
qed

lemma retry_loop_svc_exhaust:
  assumes "\<forall>i<Suc n. failed5xx (respond env (length (issued w) + i) req)"
  shows "\<exists>e. respond env (length (issued w) + n) req = Inl e
       \<and> fst (retry_loop_svc (generateContent env req) (Suc n) d le w) = Inl (Some e)
       \<and> issued (snd (retry_loop_svc (generateContent env req) (Suc n) d le w)) = issued w @ replicate (Suc n) req"
  using assms
proof (induction n arbitrary: d le w)
  case 0
  then have "failed5xx (respond env (length (issued w) + 0) req)" by blast
  then obtain e0 where e0: "respond env (length (issued w)) req = Inl e0" "retryable e0"
    by (auto simp: failed5xx_def split: sum.splits)
  show ?case unfolding retry_loop_svc_again[OF e0] using e0 by simp
next
  case (Suc n)
  then have "failed5xx (respond env (length (issued w) + 0) req)" by blast
  then obtain e0 where e0: "respond env (length (issued w)) req = Inl e0" "retryable e0"
    by (auto simp: failed5xx_def split: sum.splits)
  let ?w = "w\<lparr>issued := issued w @ [req], slept := slept w @ [d]\<rparr>"
  have b: "\<forall>i<Suc n. failed5xx (respond env (length (issued ?w) + i) req)"
    using Suc.prems by auto
  from Suc.IH[OF b, of "d * 2" "Some e0"]
  show ?case unfolding retry_loop_svc_again[OF e0]
    by (simp add: replicate_app_Cons_same)
qed

lemma retry_loop_svc_bound:
  "\<exists>m\<le>n. issued (snd (retry_loop_svc (generateContent env req) n d le w)) = issued w @ replicate m req"
proof (induction n arbitrary: d le w)
  case 0
  show ?case by simp
next
  case (Suc n)
  show ?case
  proof (cases "failed5xx (respond env (length (issued w)) req)")
    case False
    then have "issued (snd (retry_loop_svc (generateContent env req) (Suc n) d le w)) = issued w @ replicate (Suc 0) req"
      by (auto simp: failed5xx_def generateContent_def split: sum.splits)
    then show ?thesis by (intro exI[of _ "Suc 0"]) simp
  next
    case True
    then obtain e0 where e0: "respond env (length (issued w)) req = Inl e0" "retryable e0"
      by (auto simp: failed5xx_def split: sum.splits)
    let ?w = "w\<lparr>issued := issued w @ [req], slept := slept w @ [d]\<rparr>"
    from Suc.IH[of "d * 2" "Some e0" ?w] obtain m where m: "m \<le> n"
      "issued (snd (retry_loop_svc (generateContent env req) n (d * 2) (Some e0) ?w)) = issued ?w @ replicate m req"
      by blast
    show ?thesis unfolding retry_loop_svc_again[OF e0]
      using m by (intro exI[of _ "Suc m"]) (simp add: replicate_app_Cons_same)
  qed
qed

lemma retry_loop_bound:
  "\<exists>m\<le>n. issued (snd (retry_loop env (generateContent env req) n d j le w)) = issued w @ replicate m req"
proof -
  obtain r w' where rw: "retry_loop env (generateContent env req) n d j le w = (r, w')"
    by (cases "retry_loop env (generateContent env req) n d j le w")
  from retry_loop_trace[OF rw] show ?thesis unfolding rw by auto
qed

lemma not_5xx_not_retryable:
  "status e = Some s \<Longrightarrow> s < 500 \<or> 599 < s \<Longrightarrow> \<not> retryable e"
  by (auto simp: retryable_def)

lemma falsy_status_not_retryable:
  "status e = None \<or> status e = Some 0 \<Longrightarrow> \<not> retryable e"
  by (auto simp: retryable_def)

text \<open>
  Claim C1. If attempt \<open>k\<close> of a call to \<open>retryWithBackoff\<close> (of either file) fails
  with an error whose status lies outside 500..599, after \<open>k\<close> attempts that failed with
  a 5xx status, then that error is thrown to the caller and exactly \<open>k + 1\<close> requests were
  issued: none after the failing attempt.
\<close>

theorem non_5xx_error_propagates_immediately:
  assumes "k < retries"
    and "\<forall>i<k. failed5xx (respond env (length (issued w) + i) req)"
    and "respond env (length (issued w) + k) req = Inl e"
    and "status e = Some s" and "s < 500 \<or> 599 < s"
  shows "fst (retryWithBackoff env (generateContent env req) retries delay jitter w) = Inl (Some e)
       \<and> issued (snd (retryWithBackoff env (generateContent env req) retries delay jitter w))
           = issued w @ replicate (Suc k) req
       \<and> fst (retryWithBackoff_svc (generateContent env req) retries delay w) = Inl (Some e)
       \<and> issued (snd (retryWithBackoff_svc (generateContent env req) retries delay w))
           = issued w @ replicate (Suc k) req"
proof -
  have nr: "\<not> retryable e" using assms(4,5) by (rule not_5xx_not_retryable)
  from retry_loop_stop[OF assms(1,2,3) nr, of delay jitter None]
       retry_loop_svc_stop[OF assms(1,2,3) nr, of delay None]
  show ?thesis by (simp add: retryWithBackoff_def retryWithBackoff_svc_def)
qed

text \<open>
  A 503 followed by a 429: both wrappers throw the 429 after two requests.
\<close>

theorem non_5xx_error_propagates_immediately_witness:
  "fst (retryWithBackoff env_503_429 (generateContent env_503_429 test_request) 5 1000 200 w0)
     = Inl (Some (api_error 429 ''quota''))
   \<and> issued (snd (retryWithBackoff env_503_429 (generateContent env_503_429 test_request) 5 1000 200 w0))
     = [test_request, test_request]
   \<and> fst (retryWithBackoff_svc (generateContent env_503_429 test_request) 3 1000 w0)
     = Inl (Some (api_error 429 ''quota''))
   \<and> issued (snd (retryWithBackoff_svc (generateContent env_503_429 test_request) 3 1000 w0))
     = [test_request, test_request]"
  using non_5xx_error_propagates_immediately
          [of 1 5 env_503_429 w0 test_request "api_error 429 ''quota''" 429 1000 200]
        non_5xx_error_propagates_immediately
          [of 1 3 env_503_429 w0 test_request "api_error 429 ''quota''" 429 1000 200]
  by (simp add: env_503_429_def fixture_defs)

text \<open>
  Claim C9. An error that carries no status, or the falsy status 0, is not retried: it is
  thrown at the attempt at which it occurs and no further request is issued, exactly as
  for an error with a status outside 500..599.
\<close>

theorem error_without_status_never_retried:
  assumes "k < retries"
    and "\<forall>i<k. failed5xx (respond env (length (issued w) + i) req)"
    and "respond env (length (issued w) + k) req = Inl e"
    and "status e = None \<or> status e = Some 0"
  shows "fst (retryWithBackoff env (generateContent env req) retries delay jitter w) = Inl (Some e)
       \<and> issued (snd (retryWithBackoff env (generateContent env req) retries delay jitter w))
           = issued w @ replicate (Suc k) req
       \<and> fst (retryWithBackoff_svc (generateContent env req) retries delay w) = Inl (Some e)
       \<and> issued (snd (retryWithBackoff_svc (generateContent env req) retries delay w))
           = issued w @ replicate (Suc k) req"
proof -
  have nr: "\<not> retryable e" using assms(4) by (rule falsy_status_not_retryable)
  from retry_loop_stop[OF assms(1,2,3) nr, of delay jitter None]
       retry_loop_svc_stop[OF assms(1,2,3) nr, of delay None]
  show ?thesis by (simp add: retryWithBackoff_def retryWithBackoff_svc_def)
qed

text \<open>
  A 503 followed by a network failure without status.
\<close>

theorem error_without_status_never_retried_witness:
  "fst (retryWithBackoff env_503_network (generateContent env_503_network test_request) 5 1000 200 w0)
     = Inl (Some (new_TypeError ''fetch failed''))
   \<and> issued (snd (retryWithBackoff env_503_network (generateContent env_503_network test_request) 5 1000 200 w0))
     = [test_request, test_request]
   \<and> fst (retryWithBackoff_svc (generateContent env_503_network test_request) 3 1000 w0)
     = Inl (Some (new_TypeError ''fetch failed''))
   \<and> issued (snd (retryWithBackoff_svc (generateContent env_503_network test_request) 3 1000 w0))
     = [test_request, test_request]"
  using error_without_status_never_retried
          [of 1 5 env_503_network w0 test_request "new_TypeError ''fetch failed''" 1000 200]
        error_without_status_never_retried
          [of 1 3 env_503_network w0 test_request "new_TypeError ''fetch failed''" 1000 200]
  by (simp add: env_503_network_def new_TypeError_def fixture_defs)

text \<open>
  Claim C2. With attempt budget \<open>retries\<close> the wrapped function is invoked at most
  \<open>retries\<close> times; and when \<open>retries\<close> is positive and every one of these attempts fails
  with a 5xx status, the error of the last attempt is the one thrown.
\<close>

theorem attempts_bounded_last_error_thrown:
  "(\<exists>m\<le>retries. issued (snd (retryWithBackoff env (generateContent env req) retries delay jitter w))
        = issued w @ replicate m req)
   \<and> (\<exists>m\<le>retries. issued (snd (retryWithBackoff_svc (generateContent env req) retries delay w))
        = issued w @ replicate m req)
   \<and> (0 < retries \<and> (\<forall>i<retries. failed5xx (respond env (length (issued w) + i) req)) \<longrightarrow>
        (\<exists>e. respond env (length (issued w) + (retries - 1)) req = Inl e
           \<and> fst (retryWithBackoff env (generateContent env req) retries delay jitter w) = Inl (Some e)
           \<and> fst (retryWithBackoff_svc (generateContent env req) retries delay w) = Inl (Some e)))"
proof (intro conjI impI)
  show "\<exists>m\<le>retries. issued (snd (retryWithBackoff env (generateContent env req) retries delay jitter w))
        = issued w @ replicate m req"
    unfolding retryWithBackoff_def by (rule retry_loop_bound)
  show "\<exists>m\<le>retries. issued (snd (retryWithBackoff_svc (generateContent env req) retries delay w))
        = issued w @ replicate m req"
    unfolding retryWithBackoff_svc_def by (rule retry_loop_svc_bound)
next
  assume a: "0 < retries \<and> (\<forall>i<retries. failed5xx (respond env (length (issued w) + i) req))"
  then obtain n where n: "retries = Suc n" by (cases retries) auto
  from a have all: "\<forall>i<Suc n. failed5xx (respond env (length (issued w) + i) req)"
    unfolding n by simp
  from retry_loop_exhaust[OF all, of delay jitter None] obtain e where
    e: "respond env (length (issued w) + n) req = Inl e"
       "fst (retry_loop env (generateContent env req) (Suc n) delay jitter None w) = Inl (Some e)"
    by blast
  from retry_loop_svc_exhaust[OF all, of delay None] obtain e' where
    e': "respond env (length (issued w) + n) req = Inl e'"
       "fst (retry_loop_svc (generateContent env req) (Suc n) delay None w) = Inl (Some e')"
    by blast
  from e(1) e'(1) have "e' = e" by simp
  with e e' show "\<exists>e. respond env (length (issued w) + (retries - 1)) req = Inl e
           \<and> fst (retryWithBackoff env (generateContent env req) retries delay jitter w) = Inl (Some e)
           \<and> fst (retryWithBackoff_svc (generateContent env req) retries delay w) = Inl (Some e)"
    unfolding n retryWithBackoff_def retryWithBackoff_svc_def by simp
qed

text \<open>
  Three 503 errors with different messages and a budget of three: the third is thrown.
\<close>

theorem attempts_bounded_last_error_thrown_witness:
  "fst (retryWithBackoff env_503_thrice (generateContent env_503_thrice test_request) 3 1000 200 w0)
     = Inl (Some (api_error 503 ''third''))
   \<and> fst (retryWithBackoff_svc (generateContent env_503_thrice test_request) 3 1000 w0)
     = Inl (Some (api_error 503 ''third''))"
  using attempts_bounded_last_error_thrown [of 3 env_503_thrice test_request 1000 200 w0]
  by (simp add: env_503_thrice_def fixture_defs less_Suc_eq eval_nat_numeral)

text \<open>
  Claim C3. In \<open>retryWithBackoff\<close> of \<^verbatim>\<open>src/unnamed/part_000\<close>, with a non-negative
  jitter bound and \<^verbatim>\<open>Math.random()\<close> in \<open>[0, 1)\<close>: the attempts that failed with a 5xx
  status are exactly the first \<open>s\<close>, each is followed by one sleep, and the \<open>i\<close>-th sleep
  (counted from 0) lasts the initial delay times \<open>2 ^ i\<close> plus a value between 0 and the
  jitter bound. Numbers are rationals here; the doubling is exact in the source as well.
\<close>

theorem backoff_sleep_schedule:
  assumes "0 \<le> jitter" and "\<forall>k. 0 \<le> random env k \<and> random env k < 1"
    and "retryWithBackoff env (generateContent env req) retries delay jitter w = (r, w')"
  shows "\<exists>s m. s \<le> m \<and> m \<le> retries \<and> issued w' = issued w @ replicate m req
      \<and> (\<forall>i<m. failed5xx (respond env (length (issued w) + i) req) \<longleftrightarrow> i < s)
      \<and> length (slept w') = length (slept w) + s
      \<and> take (length (slept w)) (slept w') = slept w
      \<and> (\<forall>i<s. \<exists>x. 0 \<le> x \<and> x \<le> jitter
                \<and> slept w' ! (length (slept w) + i) = delay * 2 ^ i + x)"
proof -
  from retry_loop_trace[OF assms(3)[unfolded retryWithBackoff_def]]
  obtain s m where sm: "s \<le> m" "m \<le> retries" "m \<le> Suc s"
     "issued w' = issued w @ replicate m req"
     "slept w' = slept w @ map (\<lambda>i. delay * 2 ^ i + random env (draws w + i) * jitter) [0..<s]"
     "\<forall>i<s. failed5xx (respond env (length (issued w) + i) req)"
     "s < m \<longrightarrow> \<not> failed5xx (respond env (length (issued w) + s) req)"
    by blast
  have iff: "\<forall>i<m. failed5xx (respond env (length (issued w) + i) req) \<longleftrightarrow> i < s"
  proof (intro allI impI)
    fix i assume im: "i < m"
    show "failed5xx (respond env (length (issued w) + i) req) \<longleftrightarrow> i < s"
    proof (cases "i < s")
      case True with sm(6) show ?thesis by simp
    next
      case False
      with im sm(3) have "i = s" "s < m" by auto
      with sm(7) False show ?thesis by simp
    qed
  qed
  have sl: "\<forall>i<s. \<exists>x. 0 \<le> x \<and> x \<le> jitter
                \<and> slept w' ! (length (slept w) + i) = delay * 2 ^ i + x"
  proof (intro allI impI)
    fix i assume "i < s"
    let ?x = "random env (draws w + i) * jitter"
    have r: "0 \<le> random env (draws w + i)" "random env (draws w + i) \<le> 1"
      using assms(2) by (auto simp: less_imp_le)
    have "0 \<le> ?x" using r(1) assms(1) by simp
    moreover have "?x \<le> 1 * jitter" using r(2) assms(1) by (rule mult_right_mono)
    moreover have "slept w' ! (length (slept w) + i) = delay * 2 ^ i + ?x"
      unfolding sm(5) using \<open>i < s\<close> by (simp add: nth_append)
    ultimately show "\<exists>x. 0 \<le> x \<and> x \<le> jitter
                \<and> slept w' ! (length (slept w) + i) = delay * 2 ^ i + x" by auto
  qed
  show ?thesis
    apply (rule exI[of _ s], rule exI[of _ m])
    using sm(1,2,4) iff sl by (simp add: sm(5))
qed

text \<open>
  Two 503 errors, then success, with \<^verbatim>\<open>Math.random()\<close> fixed at one half: the sleeps are
  1100 and 2100 milliseconds.
\<close>

theorem backoff_sleep_schedule_witness:
  "slept (snd (retryWithBackoff env_503_503_ok (generateContent env_503_503_ok test_request) 5 1000 200 w0))
     = [1100, 2100]
   \<and> (\<exists>s m. s \<le> m \<and> m \<le> 5
      \<and> issued (snd (retryWithBackoff env_503_503_ok (generateContent env_503_503_ok test_request) 5 1000 200 w0))
          = issued w0 @ replicate m test_request
      \<and> (\<forall>i<m. failed5xx (respond env_503_503_ok (length (issued w0) + i) test_request) \<longleftrightarrow> i < s)
      \<and> length (slept (snd (retryWithBackoff env_503_503_ok (generateContent env_503_503_ok test_request) 5 1000 200 w0)))
          = length (slept w0) + s
      \<and> take (length (slept w0)) (slept (snd (retryWithBackoff env_503_503_ok (generateContent env_503_503_ok test_request) 5 1000 200 w0))) = slept w0
      \<and> (\<forall>i<s. \<exists>x. 0 \<le> x \<and> x \<le> 200
            \<and> slept (snd (retryWithBackoff env_503_503_ok (generateContent env_503_503_ok test_request) 5 1000 200 w0))
                 ! (length (slept w0) + i) = 1000 * 2 ^ i + x))"
proof -
  have j: "(0::rat) \<le> 200" by simp
  have rnd: "\<forall>k. 0 \<le> random env_503_503_ok k \<and> random env_503_503_ok k < 1"
    by (simp add: env_503_503_ok_def test_env_def)
  have run: "retryWithBackoff env_503_503_ok (generateContent env_503_503_ok test_request) 5 1000 200 w0
    = (fst (retryWithBackoff env_503_503_ok (generateContent env_503_503_ok test_request) 5 1000 200 w0),
       snd (retryWithBackoff env_503_503_ok (generateContent env_503_503_ok test_request) 5 1000 200 w0))"
    by simp
  have ev: "slept (snd (retryWithBackoff env_503_503_ok (generateContent env_503_503_ok test_request) 5 1000 200 w0))
     = [1100, 2100]"
    by (simp add: retryWithBackoff_def env_503_503_ok_def fixture_defs eval_nat_numeral
          generateContent_def Math_random_def sleep_def)
  from backoff_sleep_schedule[OF j rnd run] ev show ?thesis by blast
qed

section \<open>Fallback model escalation\<close>

lemma models_differ: "primaryModel \<noteq> fallbackModel"
  by (simp add: primaryModel_def fallbackModel_def)

lemma calls_to_append_replicate:
  "issued w' = issued w @ replicate k req \<Longrightarrow>
   calls_to m w' = calls_to m w + (if model req = m then k else 0)"
  by (simp add: calls_to_def)

text \<open>
  One call of \<open>generate\<close> issues between one and five requests for its model, and five
  when it ends with a retryable error.
\<close>

lemma generate_trace:
  assumes "generate env prompt m w = (r, w')"
  shows "\<exists>k. 1 \<le> k \<and> k \<le> 5 \<and> issued w' = issued w @ replicate k (symptom_request prompt m)
           \<and> ((\<exists>e. r = Inl (Some e) \<and> retryable e) \<longrightarrow> k = 5)"
proof -
  let ?req = "symptom_request prompt m"
  from assms have "retry_loop env (generateContent env ?req) 5 1000 200 None w = (r, w')"
    by (simp add: generate_def retryWithBackoff_def)
  from retry_loop_trace[OF this] obtain s k where sk: "s \<le> k" "k \<le> 5" "k \<le> Suc s"
    "issued w' = issued w @ replicate k ?req"
    "s < k \<longrightarrow> \<not> failed5xx (respond env (length (issued w) + s) ?req)"
    "s < k \<longrightarrow> r = (case respond env (length (issued w) + s) ?req of
                            Inl e \<Rightarrow> Inl (Some e) | Inr v \<Rightarrow> Inr v)"
    "s = k \<longrightarrow> k = 5"
    by blast
  have k1: "1 \<le> k" using sk(1,7) by (cases "s = k") auto
  have ex: "(\<exists>e. r = Inl (Some e) \<and> retryable e) \<longrightarrow> k = 5"
  proof
    assume "\<exists>e. r = Inl (Some e) \<and> retryable e"
    then obtain e where e: "r = Inl (Some e)" "retryable e" by blast
    show "k = 5"
    proof (cases "s = k")
      case True with sk(7) show ?thesis by simp
    next
      case False
      with sk(1) have lt: "s < k" by simp
      with sk(6) e(1) have "respond env (length (issued w) + s) ?req = Inl e"
        by (auto split: sum.splits)
      with sk(5) lt e(2) show ?thesis by (simp add: failed5xx_def)
    qed
  qed
  from k1 sk(2,4) ex show ?thesis by blast
qed

lemma predictSymptomsFromText_world:
  "snd (predictSymptomsFromText env st uc w) = snd (generate_with_fallback env (symptom_prompt st uc) w)"
  by (simp add: predictSymptomsFromText_def predictSymptomsFromText_try_def
        split: prod.splits sum.splits)

lemma status_503_retryable: "status e = Some 503 \<Longrightarrow> retryable e"
  by (simp add: retryable_def)

text \<open>
  Claim C4, as amended. When the retry-wrapped call to the primary model throws an error
  with status exactly 503, all five primary attempts were used and the operation goes on
  with one call of \<open>generate\<close> for the fallback model, which is retry-wrapped like the
  primary one: between one and five requests name the fallback model. When the primary
  call throws an error with any other status, no request names the fallback model and
  the operation fails with its translated error.
\<close>

theorem fallback_escalation_is_retry_wrapped:
  assumes "generate env (symptom_prompt st uc) primaryModel w = (Inl (Some e), w1)"
  shows "(status e = Some 503 \<longrightarrow>
            issued w1 = issued w @ replicate 5 (symptom_request (symptom_prompt st uc) primaryModel)
          \<and> generate_with_fallback env (symptom_prompt st uc) w
              = generate env (symptom_prompt st uc) fallbackModel w1
          \<and> (\<exists>k. 1 \<le> k \<and> k \<le> 5
                \<and> issued (snd (predictSymptomsFromText env st uc w))
                    = issued w1 @ replicate k (symptom_request (symptom_prompt st uc) fallbackModel)
                \<and> calls_to fallbackModel (snd (predictSymptomsFromText env st uc w))
                    = calls_to fallbackModel w + k))
       \<and> (status e \<noteq> Some 503 \<longrightarrow>
            calls_to fallbackModel (snd (predictSymptomsFromText env st uc w))
              = calls_to fallbackModel w
          \<and> predictSymptomsFromText env st uc w
              = (Inl (if err_class e = SyntaxError then symptoms_parse_failure else symptoms_failure), w1))"
proof -
  let ?p = "symptom_prompt st uc"
  from generate_trace[OF assms] obtain k0 where k0: "k0 \<le> 5"
    "issued w1 = issued w @ replicate k0 (symptom_request ?p primaryModel)"
    "(\<exists>e'. Inl (Some e) = (Inl (Some e') :: thrown + response) \<and> retryable e') \<longrightarrow> k0 = 5"
    by blast
  have prim: "calls_to fallbackModel w1 = calls_to fallbackModel w"
    using calls_to_append_replicate[OF k0(2), of fallbackModel] models_differ
    by (simp add: symptom_request_def)
  have A: "status e = Some 503 \<longrightarrow>
            issued w1 = issued w @ replicate 5 (symptom_request ?p primaryModel)
          \<and> generate_with_fallback env ?p w = generate env ?p fallbackModel w1
          \<and> (\<exists>k. 1 \<le> k \<and> k \<le> 5
                \<and> issued (snd (predictSymptomsFromText env st uc w))
                    = issued w1 @ replicate k (symptom_request ?p fallbackModel)
                \<and> calls_to fallbackModel (snd (predictSymptomsFromText env st uc w))
                    = calls_to fallbackModel w + k)"
  proof
    assume s: "status e = Some 503"
    then have "retryable e" by (rule status_503_retryable)
    with k0(3) have "k0 = 5" by blast
    with k0(2) have i1: "issued w1 = issued w @ replicate 5 (symptom_request ?p primaryModel)" by simp
    have gf: "generate_with_fallback env ?p w = generate env ?p fallbackModel w1"
      using assms s by (simp add: generate_with_fallback_def)
    obtain r2 w2 where g2: "generate env ?p fallbackModel w1 = (r2, w2)"
      by (cases "generate env ?p fallbackModel w1")
    from generate_trace[OF g2] obtain k where k: "1 \<le> k" "k \<le> 5"
      "issued w2 = issued w1 @ replicate k (symptom_request ?p fallbackModel)" by blast
    have w2: "snd (predictSymptomsFromText env st uc w) = w2"
      by (simp add: predictSymptomsFromText_world gf g2)
    have "calls_to fallbackModel w2 = calls_to fallbackModel w1 + k"
      using calls_to_append_replicate[OF k(3), of fallbackModel] by (simp add: symptom_request_def)
    with prim k w2 have "1 \<le> k \<and> k \<le> 5
                \<and> issued (snd (predictSymptomsFromText env st uc w))
                    = issued w1 @ replicate k (symptom_request ?p fallbackModel)
                \<and> calls_to fallbackModel (snd (predictSymptomsFromText env st uc w))
                    = calls_to fallbackModel w + k" by simp
    then have "\<exists>k. 1 \<le> k \<and> k \<le> 5
                \<and> issued (snd (predictSymptomsFromText env st uc w))
                    = issued w1 @ replicate k (symptom_request ?p fallbackModel)
                \<and> calls_to fallbackModel (snd (predictSymptomsFromText env st uc w))
                    = calls_to fallbackModel w + k" ..
    with i1 gf show "issued w1 = issued w @ replicate 5 (symptom_request ?p primaryModel)
          \<and> generate_with_fallback env ?p w = generate env ?p fallbackModel w1
          \<and> (\<exists>k. 1 \<le> k \<and> k \<le> 5
                \<and> issued (snd (predictSymptomsFromText env st uc w))
                    = issued w1 @ replicate k (symptom_request ?p fallbackModel)
                \<and> calls_to fallbackModel (snd (predictSymptomsFromText env st uc w))
                    = calls_to fallbackModel w + k)" by blast
  qed
  have B: "status e \<noteq> Some 503 \<longrightarrow>
            calls_to fallbackModel (snd (predictSymptomsFromText env st uc w))
              = calls_to fallbackModel w
          \<and> predictSymptomsFromText env st uc w
              = (Inl (if err_class e = SyntaxError then symptoms_parse_failure else symptoms_failure), w1)"
  proof
    assume s: "status e \<noteq> Some 503"
    have gf: "generate_with_fallback env ?p w = (Inl (Some e), w1)"
      using assms s by (simp add: generate_with_fallback_def)
    have p: "predictSymptomsFromText env st uc w
              = (Inl (if err_class e = SyntaxError then symptoms_parse_failure else symptoms_failure), w1)"
      by (simp add: predictSymptomsFromText_def predictSymptomsFromText_try_def gf
            instanceof_SyntaxError_def)
    with prim show "calls_to fallbackModel (snd (predictSymptomsFromText env st uc w))
              = calls_to fallbackModel w
          \<and> predictSymptomsFromText env st uc w
              = (Inl (if err_class e = SyntaxError then symptoms_parse_failure else symptoms_failure), w1)"
      by simp
  qed
  from A B show ?thesis by blast
qed

lemma primary_exhausted_503:
  "fst (generate env_503_six_then_ok (symptom_prompt ''fever'' None) primaryModel w0)
     = Inl (Some (api_error 503 ''overloaded''))"
  by (simp add: generate_def env_503_six_then_ok_def run_defs fixture_defs eval_nat_numeral)

text \<open>
  Claim C4 as stated (one fallback request, no retry loop on the fallback) fails: the
  provider answers 503 six times and then succeeds; the primary call is exhausted with
  a 503 and the fallback model is requested twice.
\<close>

theorem fallback_called_twice_counterexample:
  "fst (generate env_503_six_then_ok (symptom_prompt ''fever'' None) primaryModel w0)
     = Inl (Some (api_error 503 ''overloaded''))
   \<and> status (api_error 503 ''overloaded'') = Some 503
   \<and> calls_to fallbackModel (snd (predictSymptomsFromText env_503_six_then_ok ''fever'' None w0)) = 2"
  by (simp add: predictSymptomsFromText_world generate_with_fallback_def
        generate_def env_503_six_then_ok_def run_defs fixture_defs eval_nat_numeral
        calls_to_def symptom_request_def primaryModel_def fallbackModel_def)

lemma primary_fails_429:
  "generate env_503_429 (symptom_prompt ''fever'' None) primaryModel w0
     = (Inl (Some (api_error 429 ''quota'')),
        \<lparr>issued = replicate 2 (symptom_request (symptom_prompt ''fever'' None) primaryModel),
         slept = [1100], draws = 1\<rparr>)"
  by (simp add: generate_def env_503_429_def run_defs fixture_defs eval_nat_numeral)

text \<open>
  The same provider (primary exhausted with 503), and one whose second answer is a 429.
\<close>

theorem fallback_escalation_is_retry_wrapped_witness:
  "(\<exists>k. 1 \<le> k \<and> k \<le> 5
       \<and> calls_to fallbackModel (snd (predictSymptomsFromText env_503_six_then_ok ''fever'' None w0))
           = calls_to fallbackModel w0 + k)
   \<and> calls_to fallbackModel (snd (predictSymptomsFromText env_503_429 ''fever'' None w0))
       = calls_to fallbackModel w0
   \<and> fst (predictSymptomsFromText env_503_429 ''fever'' None w0) = Inl symptoms_failure"
proof -
  have h1: "generate env_503_six_then_ok (symptom_prompt ''fever'' None) primaryModel w0
     = (Inl (Some (api_error 503 ''overloaded'')),
        snd (generate env_503_six_then_ok (symptom_prompt ''fever'' None) primaryModel w0))"
    using primary_exhausted_503 by (simp add: prod_eq_iff)
  have s1: "status (api_error 503 ''overloaded'') = Some 503" by (simp add: api_error_def)
  have s2: "status (api_error 429 ''quota'') \<noteq> Some 503"
    "err_class (api_error 429 ''quota'') \<noteq> SyntaxError" by (simp_all add: api_error_def)
  from fallback_escalation_is_retry_wrapped[OF h1] s1
       fallback_escalation_is_retry_wrapped[OF primary_fails_429] s2
  show ?thesis by auto
qed

section \<open>Input errors\<close>

lemma analyze_no_payload:
  "analyze_contents inp = None \<Longrightarrow>
   analyzeHealthReport_with retry cl env inp w = (Inl analysis_failure, w)"
  by (simp add: analyzeHealthReport_with_def analyzeHealthReport_try_def
        instanceof_SyntaxError_def new_Error_def)

lemma hospitals_no_location:
  "hospital_request inp = None \<Longrightarrow>
   findHospitalsNearLocation_with retry cl env inp w = (Inl hospitals_failure, w)"
  by (simp add: findHospitalsNearLocation_with_def findHospitalsNearLocation_try_def)

text \<open>
  Claim C5. When report analysis receives neither usable file data nor usable text (in
  particular when both are missing), and when hospital lookup receives neither usable
  coordinates nor a usable query, the operation raises its error and the world is
  unchanged: no request was issued and nothing was retried. The error reaches the caller
  with the operation's general failure message.
\<close>

theorem missing_payload_raises_before_any_call:
  "(file_payload inp = None \<and> text_payload inp = None \<longrightarrow>
       analyzeHealthReport env inp w = (Inl analysis_failure, w)
     \<and> analyzeHealthReport_svc env inp w = (Inl analysis_failure, w))
   \<and> (coordinates loc = None \<and> query_text loc = None \<longrightarrow>
       findHospitalsNearLocation env loc w = (Inl hospitals_failure, w)
     \<and> findHospitalsNearLocation_svc env loc w = (Inl hospitals_failure, w))"
proof (intro conjI impI)
  assume "file_payload inp = None \<and> text_payload inp = None"
  then have n: "analyze_contents inp = None" by (simp add: analyze_contents_def)
  show "analyzeHealthReport env inp w = (Inl analysis_failure, w)"
    unfolding analyzeHealthReport_def using n by (rule analyze_no_payload)
  show "analyzeHealthReport_svc env inp w = (Inl analysis_failure, w)"
    unfolding analyzeHealthReport_svc_def using n by (rule analyze_no_payload)
next
  assume "coordinates loc = None \<and> query_text loc = None"
  then have n: "hospital_request loc = None" by (simp add: hospital_request_def)
  show "findHospitalsNearLocation env loc w = (Inl hospitals_failure, w)"
    unfolding findHospitalsNearLocation_def using n by (rule hospitals_no_location)
  show "findHospitalsNearLocation_svc env loc w = (Inl hospitals_failure, w)"
    unfolding findHospitalsNearLocation_svc_def using n by (rule hospitals_no_location)
qed

text \<open>
  Both payloads missing, in both files.
\<close>

theorem missing_payload_raises_before_any_call_witness:
  "analyzeHealthReport env_503_429 no_report w0 = (Inl analysis_failure, w0)
   \<and> analyzeHealthReport_svc env_503_429 no_report w0 = (Inl analysis_failure, w0)
   \<and> findHospitalsNearLocation env_503_429 no_location w0 = (Inl hospitals_failure, w0)
   \<and> findHospitalsNearLocation_svc env_503_429 no_location w0 = (Inl hospitals_failure, w0)"
  using missing_payload_raises_before_any_call [of no_report env_503_429 w0 no_location]
  by (simp add: no_report_def no_location_def file_payload_def text_payload_def
        coordinates_def query_text_def)

section \<open>Parsing and validation of the response\<close>

text \<open>
  What each operation does once the wrapped call has returned or thrown.
\<close>

lemma analyze_after_response:
  assumes "analyze_contents inp = Some c"
    and "retry (generateContent env (analysis_request cl c)) w = (Inr resp, w1)"
  shows "analyzeHealthReport_with retry cl env inp w =
     (case parse_response_text env resp of
        Inl e \<Rightarrow> (Inl (if instanceof_SyntaxError e then analysis_parse_failure else analysis_failure), w1)
      | Inr parsedJson \<Rightarrow>
          (case analysis_check parsedJson of
             Inl e \<Rightarrow> (Inl (if instanceof_SyntaxError e then analysis_parse_failure else analysis_failure), w1)
           | Inr v \<Rightarrow> (Inr v, w1)))"
  using assms
  by (simp add: analyzeHealthReport_with_def analyzeHealthReport_try_def split: sum.splits)

lemma analyze_after_failure:
  assumes "analyze_contents inp = Some c"
    and "retry (generateContent env (analysis_request cl c)) w = (Inl e, w1)"
  shows "analyzeHealthReport_with retry cl env inp w =
     (Inl (if instanceof_SyntaxError e then analysis_parse_failure else analysis_failure), w1)"
  using assms
  by (simp add: analyzeHealthReport_with_def analyzeHealthReport_try_def)

lemma predict_after_response:
  assumes "generate_with_fallback env (symptom_prompt st uc) w = (Inr resp, w1)"
  shows "predictSymptomsFromText env st uc w =
     (case parse_response_text env resp of
        Inl e \<Rightarrow> (Inl (if instanceof_SyntaxError e then symptoms_parse_failure else symptoms_failure), w1)
      | Inr parsedJson \<Rightarrow>
          (case predictions_check parsedJson of
             Inl e \<Rightarrow> (Inl (if instanceof_SyntaxError e then symptoms_parse_failure else symptoms_failure), w1)
           | Inr v \<Rightarrow> (Inr v, w1)))"
  using assms
  by (simp add: predictSymptomsFromText_def predictSymptomsFromText_try_def split: sum.splits)

lemma tips_after_response:
  assumes "retryWithBackoff env (generateContent env (tips_request (tips_prompt env ad))) 5 1000 200 w
             = (Inr resp, w1)"
  shows "generateHealthTips env ad w =
     (case parse_response_text env resp of
        Inl e \<Rightarrow> (Inl tips_failure, w1)
      | Inr parsedJson \<Rightarrow>
          (case tips_check parsedJson of
             Inl e \<Rightarrow> (Inl tips_failure, w1)
           | Inr v \<Rightarrow> (Inr v, w1)))"
  using assms
  by (simp add: generateHealthTips_def generateHealthTips_try_def split: sum.splits)

lemma tips_after_failure:
  assumes "retryWithBackoff env (generateContent env (tips_request (tips_prompt env ad))) 5 1000 200 w
             = (Inl e, w1)"
  shows "generateHealthTips env ad w = (Inl tips_failure, w1)"
  using assms
  by (simp add: generateHealthTips_def generateHealthTips_try_def)

lemma get_prop_cases:
  "(\<exists>e. get_prop v k = Inl e \<and> err_class e = TypeError \<and> v = JNull) \<or> (\<exists>p. get_prop v k = Inr p \<and> v \<noteq> JNull)"
  by (cases v) (simp_all add: new_TypeError_def)

lemma analysis_check_present:
  assumes "get_prop pj ''healthScore'' = Inr (Some hs)" "truthy hs"
    and "get_prop pj ''summary'' = Inr (Some sm)" "truthy sm"
  shows "analysis_check pj = Inr pj"
  using assms by (simp add: analysis_check_def truthy_prop_def)

lemma analysis_check_absent:
  assumes "get_prop pj ''healthScore'' = Inr None \<or> get_prop pj ''summary'' = Inr None"
  shows "analysis_check pj = Inl (Some (new_Error ''AI response is missing required fields.''))"
proof -
  from assms have "pj \<noteq> JNull" by auto
  then obtain p where p: "get_prop pj ''healthScore'' = Inr p"
    using get_prop_cases[of pj "''healthScore''"] by auto
  from \<open>pj \<noteq> JNull\<close> obtain q where q: "get_prop pj ''summary'' = Inr q"
    using get_prop_cases[of pj "''summary''"] by auto
  from assms p q have "p = None \<or> q = None" by auto
  then show ?thesis
    unfolding analysis_check_def p q by (auto simp: truthy_prop_def)
qed

lemma predictions_check_present:
  assumes "get_prop pj ''predictions'' = Inr (Some ps)" "truthy ps"
  shows "predictions_check pj = Inr pj"
  using assms by (simp add: predictions_check_def truthy_prop_def)

lemma predictions_check_absent:
  assumes "get_prop pj ''predictions'' = Inr None"
  shows "predictions_check pj = Inl (Some (new_Error ''AI response is missing the 'predictions' field.''))"
  using assms by (simp add: predictions_check_def truthy_prop_def)

lemma new_Error_not_SyntaxError: "\<not> instanceof_SyntaxError (Some (new_Error msg))"
  by (simp add: instanceof_SyntaxError_def new_Error_def)

lemma failure_messages_differ:
  "analysis_failure \<noteq> analysis_parse_failure" "symptoms_failure \<noteq> symptoms_parse_failure"
  by (simp_all add: analysis_failure_def analysis_parse_failure_def symptoms_failure_def
        symptoms_parse_failure_def new_Error_def)

text \<open>
  What the validation does hold to. For a response that parses, report analysis checks
  \<^verbatim>\<open>healthScore\<close> and \<^verbatim>\<open>summary\<close> and symptom prediction checks \<^verbatim>\<open>predictions\<close>:
  when the checked fields are present with truthy values the parsed value is returned
  unchanged; when a checked field is absent the operation raises its general failure,
  whose message differs from the parse failure's.
\<close>

lemma validation_of_checked_fields:
  assumes "parse_response_text env resp = Inr parsedJson"
  shows
  "(analyze_contents inp = Some c
      \<and> wrapper_part_000 env (generateContent env (analysis_request aiAnalyze c)) w = (Inr resp, w1) \<longrightarrow>
      ((\<exists>hs sm. get_prop parsedJson ''healthScore'' = Inr (Some hs) \<and> truthy hs
              \<and> get_prop parsedJson ''summary'' = Inr (Some sm) \<and> truthy sm)
          \<longrightarrow> analyzeHealthReport env inp w = (Inr parsedJson, w1))
    \<and> (get_prop parsedJson ''healthScore'' = Inr None \<or> get_prop parsedJson ''summary'' = Inr None
          \<longrightarrow> analyzeHealthReport env inp w = (Inl analysis_failure, w1)))
   \<and> (generate_with_fallback env (symptom_prompt st uc) w = (Inr resp, w2) \<longrightarrow>
      ((\<exists>ps. get_prop parsedJson ''predictions'' = Inr (Some ps) \<and> truthy ps)
          \<longrightarrow> predictSymptomsFromText env st uc w = (Inr parsedJson, w2))
    \<and> (get_prop parsedJson ''predictions'' = Inr None
          \<longrightarrow> predictSymptomsFromText env st uc w = (Inl symptoms_failure, w2)))
   \<and> analysis_failure \<noteq> analysis_parse_failure
   \<and> symptoms_failure \<noteq> symptoms_parse_failure"
proof (intro conjI impI)
  assume a: "analyze_contents inp = Some c
      \<and> wrapper_part_000 env (generateContent env (analysis_request aiAnalyze c)) w = (Inr resp, w1)"
  note r = analyze_after_response[where retry = "wrapper_part_000 env" and cl = aiAnalyze,
      OF conjunct1[OF a] conjunct2[OF a], unfolded assms, folded analyzeHealthReport_def]
  {
    assume "\<exists>hs sm. get_prop parsedJson ''healthScore'' = Inr (Some hs) \<and> truthy hs
              \<and> get_prop parsedJson ''summary'' = Inr (Some sm) \<and> truthy sm"
    then have "analysis_check parsedJson = Inr parsedJson" by (auto intro: analysis_check_present)
    then show "analyzeHealthReport env inp w = (Inr parsedJson, w1)" using r by simp
  }
  {
    assume "get_prop parsedJson ''healthScore'' = Inr None \<or> get_prop parsedJson ''summary'' = Inr None"
    from analysis_check_absent[OF this]
    show "analyzeHealthReport env inp w = (Inl analysis_failure, w1)"
      using r by (simp add: new_Error_not_SyntaxError)
  }
next
  assume a: "generate_with_fallback env (symptom_prompt st uc) w = (Inr resp, w2)"
  note r = predict_after_response[OF a, unfolded assms]
  {
    assume "\<exists>ps. get_prop parsedJson ''predictions'' = Inr (Some ps) \<and> truthy ps"
    then have "predictions_check parsedJson = Inr parsedJson" by (auto intro: predictions_check_present)
    then show "predictSymptomsFromText env st uc w = (Inr parsedJson, w2)" using r by simp
  }
  {
    assume "get_prop parsedJson ''predictions'' = Inr None"
    from predictions_check_absent[OF this]
    show "predictSymptomsFromText env st uc w = (Inl symptoms_failure, w2)"
      using r by (simp add: new_Error_not_SyntaxError)
  }
qed (rule failure_messages_differ)+

lemma analyze_contents_text_report: "analyze_contents text_report = Some text_report_contents"
  by (simp add: analyze_contents_def text_report_def text_report_contents_def
        file_payload_def text_payload_def)

lemma first_call_answered:
  "wrapper_part_000 (test_env (Inr resp # outs) table) (generateContent (test_env (Inr resp # outs) table) req) w0
     = (Inr resp, \<lparr>issued = [req], slept = [], draws = 0\<rparr>)"
  by (simp add: wrapper_part_000_def run_defs fixture_defs eval_nat_numeral)

lemma first_call_answered_svc:
  "wrapper_svc (generateContent (test_env (Inr resp # outs) table) req) w0
     = (Inr resp, \<lparr>issued = [req], slept = [], draws = 0\<rparr>)"
  by (simp add: wrapper_svc_def retryWithBackoff_svc_def run_defs fixture_defs eval_nat_numeral)

lemma trim_partial: "trim (''  '' @ partial_text @ [CHR 0x0A]) = partial_text"
  by (simp add: trim_def is_space_def partial_text_def)

text \<open>
  The analysis schema also marks \<^verbatim>\<open>predictions\<close> and \<^verbatim>\<open>recommendations\<close> as
  required; they are not checked, and a parsed object without them is returned.
\<close>

lemma unchecked_required_field_is_accepted:
  "''predictions'' \<in> set (required analysisSchema)
   \<and> get_prop partial_json ''predictions'' = Inr None
   \<and> fst (analyzeHealthReport env_partial text_report w0) = Inr partial_json"
proof -
  have p: "parse_response_text env_partial (text_response (''  '' @ partial_text @ [CHR 0x0A])) = Inr partial_json"
    unfolding parse_response_text_def text_response_def
    by (simp add: trim_partial[simplified] env_partial_def test_env_def json_table_def)
  have c: "analysis_check partial_json = Inr partial_json"
    by (simp add: analysis_check_def partial_json_def truthy_prop_def)
  have "analyzeHealthReport env_partial text_report w0
          = (Inr partial_json, \<lparr>issued = [analysis_request aiAnalyze text_report_contents], slept = [], draws = 0\<rparr>)"
    unfolding analyzeHealthReport_def env_partial_def
    using analyze_after_response[where retry = "wrapper_part_000 (test_env [Inr (text_response (''  '' @ partial_text @ [CHR 0x0A]))] json_table)",
            OF analyze_contents_text_report first_call_answered]
          p[unfolded env_partial_def] c
    by simp
  then show ?thesis by (simp add: partial_json_def)
qed

text \<open>
  Claim C6: for a response that parses, the required fields are checked, the parsed
  structure is returned unchanged when they are all present, and a validation failure is
  raised when one is absent. The code departs from this: its check is
  \<^verbatim>\<open>!parsedJson.healthScore || !parsedJson.summary\<close>, a test of truthiness, so a
  response that parses and has every field the schema requires, with the health score 0
  (the schema describes the score as ranging from 0 to 100), is not returned but rejected
  as incomplete.
\<close>

theorem zero_health_score_is_rejected:
  "JSON_parse env_zero (trim zero_text) = Some zero_json
   \<and> get_prop zero_json ''summary'' = Inr (Some (JStr ''critical''))
   \<and> get_prop zero_json ''predictions'' = Inr (Some (JArr []))
   \<and> get_prop zero_json ''healthScore'' = Inr (Some (JNum 0))
   \<and> get_prop zero_json ''recommendations'' = Inr (Some (JArr []))
   \<and> analyzeHealthReport env_zero text_report w0
       = (Inl analysis_failure,
          \<lparr>issued = [analysis_request aiAnalyze text_report_contents], slept = [], draws = 0\<rparr>)"
proof -
  have j: "JSON_parse env_zero (trim zero_text) = Some zero_json"
    by (simp add: trim_def is_space_def env_zero_def test_env_def json_fixture_defs)
  have p: "parse_response_text env_zero (text_response zero_text) = Inr zero_json"
    unfolding parse_response_text_def text_response_def using j by simp
  have c: "analysis_check zero_json = Inl (Some (new_Error ''AI response is missing required fields.''))"
    by (simp add: analysis_check_def zero_json_def truthy_prop_def)
  have r: "analyzeHealthReport env_zero text_report w0
          = (Inl analysis_failure, \<lparr>issued = [analysis_request aiAnalyze text_report_contents], slept = [], draws = 0\<rparr>)"
    unfolding analyzeHealthReport_def env_zero_def
    using analyze_after_response[where retry = "wrapper_part_000 (test_env [Inr (text_response zero_text)] json_table)",
            OF analyze_contents_text_report first_call_answered]
          p[unfolded env_zero_def] c
    by (simp add: new_Error_not_SyntaxError)
  have g: "get_prop zero_json ''summary'' = Inr (Some (JStr ''critical''))"
    "get_prop zero_json ''predictions'' = Inr (Some (JArr []))"
    "get_prop zero_json ''healthScore'' = Inr (Some (JNum 0))"
    "get_prop zero_json ''recommendations'' = Inr (Some (JArr []))"
    by (simp_all add: zero_json_def)
  from j g r show ?thesis by simp
qed

lemma first_generate_answered:
  "generate_with_fallback (test_env (Inr resp # outs) table) prompt w0
     = (Inr resp, \<lparr>issued = [symptom_request prompt primaryModel], slept = [], draws = 0\<rparr>)"
  by (simp add: generate_with_fallback_def generate_def run_defs fixture_defs eval_nat_numeral)

text \<open>
  A response with all four fields of the analysis schema and a score of 80.
\<close>

lemma validation_of_checked_fields_example:
  "analyzeHealthReport env_full text_report w0
     = (Inr full_json, \<lparr>issued = [analysis_request aiAnalyze text_report_contents], slept = [], draws = 0\<rparr>)
   \<and> predictSymptomsFromText env_full ''fever'' None w0
     = (Inr full_json, \<lparr>issued = [symptom_request (symptom_prompt ''fever'' None) primaryModel],
                         slept = [], draws = 0\<rparr>)"
proof -
  have p: "parse_response_text env_full (text_response full_text) = Inr full_json"
    unfolding parse_response_text_def text_response_def
    by (simp add: trim_def is_space_def env_full_def test_env_def json_fixture_defs)
  have a: "wrapper_part_000 env_full (generateContent env_full (analysis_request aiAnalyze text_report_contents)) w0
     = (Inr (text_response full_text), \<lparr>issued = [analysis_request aiAnalyze text_report_contents], slept = [], draws = 0\<rparr>)"
    unfolding env_full_def by (rule first_call_answered)
  have g: "generate_with_fallback env_full (symptom_prompt ''fever'' None) w0
     = (Inr (text_response full_text), \<lparr>issued = [symptom_request (symptom_prompt ''fever'' None) primaryModel], slept = [], draws = 0\<rparr>)"
    unfolding env_full_def by (rule first_generate_answered)
  have f: "get_prop full_json ''healthScore'' = Inr (Some (JNum 80))" "truthy (JNum 80)"
     "get_prop full_json ''summary'' = Inr (Some (JStr ''ok''))" "truthy (JStr ''ok'')"
     "get_prop full_json ''predictions'' = Inr (Some (JArr []))" "truthy (JArr [])"
    by (simp_all add: full_json_def)
  from validation_of_checked_fields[OF p, of text_report text_report_contents w0
         "\<lparr>issued = [analysis_request aiAnalyze text_report_contents], slept = [], draws = 0\<rparr>"
         "''fever''" None
         "\<lparr>issued = [symptom_request (symptom_prompt ''fever'' None) primaryModel], slept = [], draws = 0\<rparr>"]
       analyze_contents_text_report a g f
  show ?thesis by blast
qed

lemma parse_failure_SyntaxError:
  assumes "resp_text resp = Some t" and "JSON_parse env (trim t) = None"
  shows "parse_response_text env resp = Inl (Some (new_SyntaxError ''Unexpected token''))"
  using assms by (simp add: parse_response_text_def)

lemma new_SyntaxError_instance: "instanceof_SyntaxError (Some (new_SyntaxError msg))"
  by (simp add: instanceof_SyntaxError_def new_SyntaxError_def)

lemma predict_after_failure:
  assumes "generate_with_fallback env (symptom_prompt st uc) w = (Inl e, w1)"
  shows "predictSymptomsFromText env st uc w =
     (Inl (if instanceof_SyntaxError e then symptoms_parse_failure else symptoms_failure), w1)"
  using assms
  by (simp add: predictSymptomsFromText_def predictSymptomsFromText_try_def)

text \<open>
  What holds of parse failures. When the trimmed response text does not parse, report
  analysis (both files) and symptom prediction raise their dedicated parse-failure
  message, which differs from the message raised for a failure of the wrapped call that
  is not itself a SyntaxError; tip generation raises its single failure message, the same
  as for a failure of the wrapped call. No operation returns a value in that case.
\<close>

lemma parse_failure_is_reported:
  assumes "resp_text resp = Some t" and "JSON_parse env (trim t) = None"
  shows
  "(analyze_contents inp = Some c
      \<and> wrapper_part_000 env (generateContent env (analysis_request aiAnalyze c)) w = (Inr resp, w1)
      \<longrightarrow> analyzeHealthReport env inp w = (Inl analysis_parse_failure, w1))
   \<and> (analyze_contents inp = Some c
      \<and> wrapper_svc (generateContent env (analysis_request ai c)) w = (Inr resp, w2)
      \<longrightarrow> analyzeHealthReport_svc env inp w = (Inl analysis_parse_failure, w2))
   \<and> (generate_with_fallback env (symptom_prompt st uc) w = (Inr resp, w3)
      \<longrightarrow> predictSymptomsFromText env st uc w = (Inl symptoms_parse_failure, w3))
   \<and> (retryWithBackoff env (generateContent env (tips_request (tips_prompt env ad))) 5 1000 200 w
        = (Inr resp, w4)
      \<longrightarrow> generateHealthTips env ad w = (Inl tips_failure, w4))
   \<and> (analyze_contents inp = Some c
      \<and> wrapper_part_000 env (generateContent env (analysis_request aiAnalyze c)) w = (Inl (Some e), w5)
      \<and> err_class e \<noteq> SyntaxError
      \<longrightarrow> analyzeHealthReport env inp w = (Inl analysis_failure, w5))
   \<and> (analyze_contents inp = Some c
      \<and> wrapper_svc (generateContent env (analysis_request ai c)) w = (Inl (Some e), w6)
      \<and> err_class e \<noteq> SyntaxError
      \<longrightarrow> analyzeHealthReport_svc env inp w = (Inl analysis_failure, w6))
   \<and> (generate_with_fallback env (symptom_prompt st uc) w = (Inl (Some e), w7)
      \<and> err_class e \<noteq> SyntaxError
      \<longrightarrow> predictSymptomsFromText env st uc w = (Inl symptoms_failure, w7))
   \<and> (retryWithBackoff env (generateContent env (tips_request (tips_prompt env ad))) 5 1000 200 w
        = (Inl (Some e), w8)
      \<longrightarrow> generateHealthTips env ad w = (Inl tips_failure, w8))
   \<and> analysis_parse_failure \<noteq> analysis_failure
   \<and> symptoms_parse_failure \<noteq> symptoms_failure"
proof -
  note p = parse_failure_SyntaxError[OF assms]
  have 1: "analyze_contents inp = Some c
      \<and> wrapper_part_000 env (generateContent env (analysis_request aiAnalyze c)) w = (Inr resp, w1)
      \<longrightarrow> analyzeHealthReport env inp w = (Inl analysis_parse_failure, w1)"
  proof
    assume a: "analyze_contents inp = Some c
      \<and> wrapper_part_000 env (generateContent env (analysis_request aiAnalyze c)) w = (Inr resp, w1)"
    from analyze_after_response[where retry = "wrapper_part_000 env" and cl = aiAnalyze,
           OF conjunct1[OF a] conjunct2[OF a], unfolded p, folded analyzeHealthReport_def]
    show "analyzeHealthReport env inp w = (Inl analysis_parse_failure, w1)"
      by (simp add: new_SyntaxError_instance)
  qed
  have 2: "analyze_contents inp = Some c
      \<and> wrapper_svc (generateContent env (analysis_request ai c)) w = (Inr resp, w2)
      \<longrightarrow> analyzeHealthReport_svc env inp w = (Inl analysis_parse_failure, w2)"
  proof
    assume a: "analyze_contents inp = Some c
      \<and> wrapper_svc (generateContent env (analysis_request ai c)) w = (Inr resp, w2)"
    from analyze_after_response[where retry = wrapper_svc and cl = ai,
           OF conjunct1[OF a] conjunct2[OF a], unfolded p, folded analyzeHealthReport_svc_def]
    show "analyzeHealthReport_svc env inp w = (Inl analysis_parse_failure, w2)"
      by (simp add: new_SyntaxError_instance)
  qed
  have 3: "generate_with_fallback env (symptom_prompt st uc) w = (Inr resp, w3)
      \<longrightarrow> predictSymptomsFromText env st uc w = (Inl symptoms_parse_failure, w3)"
  proof
    assume a: "generate_with_fallback env (symptom_prompt st uc) w = (Inr resp, w3)"
    from predict_after_response[OF a, unfolded p]
    show "predictSymptomsFromText env st uc w = (Inl symptoms_parse_failure, w3)"
      by (simp add: new_SyntaxError_instance)
  qed
  have 4: "retryWithBackoff env (generateContent env (tips_request (tips_prompt env ad))) 5 1000 200 w
        = (Inr resp, w4)
      \<longrightarrow> generateHealthTips env ad w = (Inl tips_failure, w4)"
  proof
    assume a: "retryWithBackoff env (generateContent env (tips_request (tips_prompt env ad))) 5 1000 200 w
        = (Inr resp, w4)"
    from tips_after_response[OF a, unfolded p]
    show "generateHealthTips env ad w = (Inl tips_failure, w4)" by simp
  qed
  have 5: "analyze_contents inp = Some c
      \<and> wrapper_part_000 env (generateContent env (analysis_request aiAnalyze c)) w = (Inl (Some e), w5)
      \<and> err_class e \<noteq> SyntaxError
      \<longrightarrow> analyzeHealthReport env inp w = (Inl analysis_failure, w5)"
  proof
    assume a: "analyze_contents inp = Some c
      \<and> wrapper_part_000 env (generateContent env (analysis_request aiAnalyze c)) w = (Inl (Some e), w5)
      \<and> err_class e \<noteq> SyntaxError"
    from analyze_after_failure[where retry = "wrapper_part_000 env" and cl = aiAnalyze,
           OF conjunct1[OF a] conjunct1[OF conjunct2[OF a]], folded analyzeHealthReport_def] a
    show "analyzeHealthReport env inp w = (Inl analysis_failure, w5)"
      by (simp add: instanceof_SyntaxError_def)
  qed
  have 6: "analyze_contents inp = Some c
      \<and> wrapper_svc (generateContent env (analysis_request ai c)) w = (Inl (Some e), w6)
      \<and> err_class e \<noteq> SyntaxError
      \<longrightarrow> analyzeHealthReport_svc env inp w = (Inl analysis_failure, w6)"
  proof
    assume a: "analyze_contents inp = Some c
      \<and> wrapper_svc (generateContent env (analysis_request ai c)) w = (Inl (Some e), w6)
      \<and> err_class e \<noteq> SyntaxError"
    from analyze_after_failure[where retry = wrapper_svc and cl = ai,
           OF conjunct1[OF a] conjunct1[OF conjunct2[OF a]], folded analyzeHealthReport_svc_def] a
    show "analyzeHealthReport_svc env inp w = (Inl analysis_failure, w6)"
      by (simp add: instanceof_SyntaxError_def)
  qed
  have 7: "generate_with_fallback env (symptom_prompt st uc) w = (Inl (Some e), w7)
      \<and> err_class e \<noteq> SyntaxError
      \<longrightarrow> predictSymptomsFromText env st uc w = (Inl symptoms_failure, w7)"
  proof
    assume a: "generate_with_fallback env (symptom_prompt st uc) w = (Inl (Some e), w7)
      \<and> err_class e \<noteq> SyntaxError"
    from predict_after_failure[OF conjunct1[OF a]] a
    show "predictSymptomsFromText env st uc w = (Inl symptoms_failure, w7)"
      by (simp add: instanceof_SyntaxError_def)
  qed
  have 8: "retryWithBackoff env (generateContent env (tips_request (tips_prompt env ad))) 5 1000 200 w
        = (Inl (Some e), w8)
      \<longrightarrow> generateHealthTips env ad w = (Inl tips_failure, w8)"
    by (auto intro: tips_after_failure)
  from 1 2 3 4 5 6 7 8 failure_messages_differ show ?thesis by (simp add: neq_commute[of analysis_failure] neq_commute[of symptoms_failure])
qed

lemma not_json_unparsable: "JSON_parse env_not_json (trim ''not json'') = None"
  by (simp add: env_not_json_def test_env_def trim_def is_space_def json_fixture_defs)

text \<open>
  Claim C7: a response whose trimmed text does not parse raises an error of a kind
  distinct from a transport or server failure, and no default value or partial object is
  returned. Report analysis and symptom prediction do so; tip generation does not: its
  \<^verbatim>\<open>catch\<close> has no \<^verbatim>\<open>instanceof SyntaxError\<close> branch, and an unparsable response
  raises the same error as five 503 answers.
\<close>

theorem tips_parse_failure_not_distinct:
  "resp_text (text_response ''not json'') = Some ''not json''
   \<and> JSON_parse env_not_json (trim ''not json'') = None
   \<and> generateHealthTips env_not_json sample_analysis w0
       = (Inl tips_failure,
          \<lparr>issued = [tips_request (tips_prompt env_not_json sample_analysis)], slept = [], draws = 0\<rparr>)
   \<and> fst (generateHealthTips env_503_always sample_analysis w0) = Inl tips_failure"
proof -
  have a: "retryWithBackoff env_not_json
             (generateContent env_not_json (tips_request (tips_prompt env_not_json sample_analysis)))
             5 1000 200 w0
           = (Inr (text_response ''not json''),
              \<lparr>issued = [tips_request (tips_prompt env_not_json sample_analysis)], slept = [], draws = 0\<rparr>)"
    using first_call_answered[of "text_response ''not json''" "[]" json_table
            "tips_request (tips_prompt env_not_json sample_analysis)"]
    by (simp add: wrapper_part_000_def env_not_json_def)
  have p: "parse_response_text env_not_json (text_response ''not json'')
             = Inl (Some (new_SyntaxError ''Unexpected token''))"
    by (rule parse_failure_SyntaxError[OF _ not_json_unparsable]) (simp add: text_response_def)
  have 1: "generateHealthTips env_not_json sample_analysis w0
       = (Inl tips_failure,
          \<lparr>issued = [tips_request (tips_prompt env_not_json sample_analysis)], slept = [], draws = 0\<rparr>)"
    using tips_after_response[OF a] p by simp
  have 2: "fst (generateHealthTips env_503_always sample_analysis w0) = Inl tips_failure"
    by (simp add: generateHealthTips_def generateHealthTips_try_def split: prod.splits sum.splits)
       (simp add: env_503_always_def run_defs fixture_defs eval_nat_numeral)
  from 1 2 not_json_unparsable show ?thesis by (simp add: text_response_def)
qed

text \<open>
  The response text \<^verbatim>\<open>not json\<close> in report analysis and symptom prediction.
\<close>

lemma parse_failure_is_reported_example:
  "analyzeHealthReport env_not_json text_report w0
     = (Inl analysis_parse_failure,
        \<lparr>issued = [analysis_request aiAnalyze text_report_contents], slept = [], draws = 0\<rparr>)
   \<and> analyzeHealthReport_svc env_not_json text_report w0
     = (Inl analysis_parse_failure,
        \<lparr>issued = [analysis_request ai text_report_contents], slept = [], draws = 0\<rparr>)
   \<and> predictSymptomsFromText env_not_json ''fever'' None w0
     = (Inl symptoms_parse_failure,
        \<lparr>issued = [symptom_request (symptom_prompt ''fever'' None) primaryModel], slept = [], draws = 0\<rparr>)"
proof -
  have t: "resp_text (text_response ''not json'') = Some ''not json''"
    by (simp add: text_response_def)
  have a: "wrapper_part_000 env_not_json (generateContent env_not_json (analysis_request aiAnalyze text_report_contents)) w0
     = (Inr (text_response ''not json''), \<lparr>issued = [analysis_request aiAnalyze text_report_contents], slept = [], draws = 0\<rparr>)"
    unfolding env_not_json_def by (rule first_call_answered)
  have b: "wrapper_svc (generateContent env_not_json (analysis_request ai text_report_contents)) w0
     = (Inr (text_response ''not json''), \<lparr>issued = [analysis_request ai text_report_contents], slept = [], draws = 0\<rparr>)"
    unfolding env_not_json_def by (rule first_call_answered_svc)
  have g: "generate_with_fallback env_not_json (symptom_prompt ''fever'' None) w0
     = (Inr (text_response ''not json''), \<lparr>issued = [symptom_request (symptom_prompt ''fever'' None) primaryModel], slept = [], draws = 0\<rparr>)"
    unfolding env_not_json_def by (rule first_generate_answered)
  from parse_failure_is_reported[OF t not_json_unparsable, of text_report text_report_contents w0
         "\<lparr>issued = [analysis_request aiAnalyze text_report_contents], slept = [], draws = 0\<rparr>"
         "\<lparr>issued = [analysis_request ai text_report_contents], slept = [], draws = 0\<rparr>"
         "''fever''" None
         "\<lparr>issued = [symptom_request (symptom_prompt ''fever'' None) primaryModel], slept = [], draws = 0\<rparr>"]
       analyze_contents_text_report a b g
  show ?thesis by blast
qed

section \<open>Voice output\<close>

text \<open>
  Claim C8. In the chat operation with voice output enabled, when the chat call returns a
  non-empty text and the synthesis fails (the wrapped call throws, or the response has no
  audio data), the result carries the text, its audio field is \<^verbatim>\<open>null\<close>, and no error
  is raised.
\<close>

theorem synthesis_failure_is_swallowed:
  assumes "retryWithBackoff env (generateContent env (chat_request msg hist uc)) 5 1000 200 w
             = (Inr resp, w1)"
    and "resp_text resp = Some t" and "t \<noteq> []" and "enabled vc"
    and "textToSpeech_try env t (voice vc) w1 = (Inl err, w2)"
  shows "getChatResponse env msg hist uc (Some vc) w
           = (Inr \<lparr>response = Some t, audio = None\<rparr>, w2)"
  using assms
  by (simp add: getChatResponse_def getChatResponse_try_def textToSpeech_def)

text \<open>
  The chat call answers, the synthesis call fails with a 400.
\<close>

theorem synthesis_failure_is_swallowed_witness:
  "getChatResponse env_chat_no_voice ''hello'' None None (Some voice_on) w0
     = (Inr \<lparr>response = Some ''Drink water.'', audio = None\<rparr>,
        \<lparr>issued = [chat_request ''hello'' None None, tts_request ''Drink water.'' (Some ''Kore'')],
         slept = [], draws = 0\<rparr>)"
proof -
  have a: "retryWithBackoff env_chat_no_voice
             (generateContent env_chat_no_voice (chat_request ''hello'' None None)) 5 1000 200 w0
           = (Inr (text_response ''Drink water.''),
              \<lparr>issued = [chat_request ''hello'' None None], slept = [], draws = 0\<rparr>)"
    by (simp add: env_chat_no_voice_def run_defs fixture_defs eval_nat_numeral)
  have b: "textToSpeech_try env_chat_no_voice ''Drink water.'' (voice voice_on)
             \<lparr>issued = [chat_request ''hello'' None None], slept = [], draws = 0\<rparr>
           = (Inl (Some (api_error 400 ''voice unavailable'')),
              \<lparr>issued = [chat_request ''hello'' None None, tts_request ''Drink water.'' (Some ''Kore'')],
               slept = [], draws = 0\<rparr>)"
    by (simp add: textToSpeech_try_def voice_on_def env_chat_no_voice_def run_defs fixture_defs
          eval_nat_numeral)
  have t: "resp_text (text_response ''Drink water.'') = Some ''Drink water.''"
    by (simp add: text_response_def)
  have e: "enabled voice_on" by (simp add: voice_on_def)
  from synthesis_failure_is_swallowed[OF a t _ e b] show ?thesis by simp
qed

section \<open>Hospital lookup results\<close>

lemma chunk_hospital_Some:
  "chunk_hospital ch = Some h \<Longrightarrow>
   name h \<noteq> [] \<and> uri h \<noteq> []
   \<and> (\<exists>m. maps ch = Some m \<and> maps_title m = Some (name h) \<and> maps_uri m = Some (uri h))"
  by (auto simp: chunk_hospital_def split: option.splits if_splits)

lemma chunk_hospital_defined:
  "chunk_hospital ch \<noteq> None \<longleftrightarrow>
   (\<exists>m u t. maps ch = Some m \<and> maps_uri m = Some u \<and> u \<noteq> [] \<and> maps_title m = Some t \<and> t \<noteq> [])"
  by (auto simp: chunk_hospital_def split: option.splits if_splits)

lemma hospitals_of_member:
  assumes "h \<in> set (hospitals_of chunks)"
  shows "name h \<noteq> [] \<and> uri h \<noteq> []
   \<and> (\<exists>ch\<in>set (chunks_or_empty chunks). \<exists>m. maps ch = Some m
          \<and> maps_title m = Some (name h) \<and> maps_uri m = Some (uri h))"
proof -
  from assms obtain ch where ch: "ch \<in> set (chunks_or_empty chunks)" "chunk_hospital ch = Some h"
    by (auto simp: hospitals_of_def map_filter_def)
  from chunk_hospital_Some[OF ch(2)] ch(1) show ?thesis by blast
qed

lemma hospitals_of_length:
  "length (hospitals_of chunks) =
   length (filter (\<lambda>ch. \<exists>m u t. maps ch = Some m \<and> maps_uri m = Some u \<and> u \<noteq> []
                          \<and> maps_title m = Some t \<and> t \<noteq> []) (chunks_or_empty chunks))"
proof -
  have "length (hospitals_of chunks)
          = length (filter (\<lambda>ch. chunk_hospital ch \<noteq> None) (chunks_or_empty chunks))"
    by (simp add: hospitals_of_def map_filter_def)
  also have "\<dots> = length (filter (\<lambda>ch. \<exists>m u t. maps ch = Some m \<and> maps_uri m = Some u \<and> u \<noteq> []
                          \<and> maps_title m = Some t \<and> t \<noteq> []) (chunks_or_empty chunks))"
    by (rule arg_cong[where f = length], rule filter_cong[OF refl]) (rule chunk_hospital_defined)
  finally show ?thesis .
qed

text \<open>
  Claim C10. For every successful return of hospital lookup (of either file: the wrapper
  and client are arbitrary), each returned hospital has a non-empty name and URI copied
  from one grounding chunk of the response that has both; the number of hospitals is the
  number of chunks with both fields, so chunks lacking one are left out; and a response
  without grounding chunks still gives a successful result with no hospitals.
\<close>

theorem hospitals_come_from_complete_chunks:
  "(findHospitalsNearLocation_with retry cl env inp w = (Inr res, w') \<longrightarrow>
      (\<exists>c cfg resp. hospital_request inp = Some (c, cfg)
         \<and> retry (generateContent env (hospitals_request cl c cfg)) w = (Inr resp, w')
         \<and> (\<forall>h\<in>set (hospitals res). name h \<noteq> [] \<and> uri h \<noteq> []
              \<and> (\<exists>ch\<in>set (chunks_or_empty (groundingChunks resp)). \<exists>m. maps ch = Some m
                     \<and> maps_title m = Some (name h) \<and> maps_uri m = Some (uri h)))
         \<and> length (hospitals res) =
             length (filter (\<lambda>ch. \<exists>m u t. maps ch = Some m \<and> maps_uri m = Some u \<and> u \<noteq> []
                                    \<and> maps_title m = Some t \<and> t \<noteq> [])
                       (chunks_or_empty (groundingChunks resp)))))
   \<and> (hospital_request inp = Some (c0, cfg0)
        \<and> retry (generateContent env (hospitals_request cl c0 cfg0)) w = (Inr resp0, w1)
        \<and> groundingChunks resp0 = None \<longrightarrow>
       (\<exists>s. findHospitalsNearLocation_with retry cl env inp w
               = (Inr \<lparr>summary_text = s, hospitals = []\<rparr>, w1)))"
proof (intro conjI impI)
  assume a: "findHospitalsNearLocation_with retry cl env inp w = (Inr res, w')"
  then obtain c cfg where rq: "hospital_request inp = Some (c, cfg)"
    by (cases "hospital_request inp")
       (auto simp: findHospitalsNearLocation_with_def findHospitalsNearLocation_try_def)
  obtain r w2 where rw: "retry (generateContent env (hospitals_request cl c cfg)) w = (r, w2)"
    by (cases "retry (generateContent env (hospitals_request cl c cfg)) w")
  from a rq rw obtain resp where resp: "r = Inr resp" "w2 = w'"
    "res = \<lparr>summary_text = or_default (resp_text resp) ''Here are some hospitals found near your location.'',
            hospitals = hospitals_of (groundingChunks resp)\<rparr>"
    by (cases r)
       (auto simp: findHospitalsNearLocation_with_def findHospitalsNearLocation_try_def)
  have h: "hospitals res = hospitals_of (groundingChunks resp)" using resp(3) by simp
  show "\<exists>c cfg resp. hospital_request inp = Some (c, cfg)
         \<and> retry (generateContent env (hospitals_request cl c cfg)) w = (Inr resp, w')
         \<and> (\<forall>h\<in>set (hospitals res). name h \<noteq> [] \<and> uri h \<noteq> []
              \<and> (\<exists>ch\<in>set (chunks_or_empty (groundingChunks resp)). \<exists>m. maps ch = Some m
                     \<and> maps_title m = Some (name h) \<and> maps_uri m = Some (uri h)))
         \<and> length (hospitals res) =
             length (filter (\<lambda>ch. \<exists>m u t. maps ch = Some m \<and> maps_uri m = Some u \<and> u \<noteq> []
                                    \<and> maps_title m = Some t \<and> t \<noteq> [])
                       (chunks_or_empty (groundingChunks resp)))"
    apply (rule exI[of _ c], rule exI[of _ cfg], rule exI[of _ resp])
    using rq rw resp(1,2) hospitals_of_member[of _ "groundingChunks resp"]
      hospitals_of_length[of "groundingChunks resp"]
    unfolding h by blast
next
  assume a: "hospital_request inp = Some (c0, cfg0)
        \<and> retry (generateContent env (hospitals_request cl c0 cfg0)) w = (Inr resp0, w1)
        \<and> groundingChunks resp0 = None"
  then show "\<exists>s. findHospitalsNearLocation_with retry cl env inp w
               = (Inr \<lparr>summary_text = s, hospitals = []\<rparr>, w1)"
    by (simp add: findHospitalsNearLocation_with_def findHospitalsNearLocation_try_def
          hospitals_of_def chunks_or_empty_def)
qed

lemma hospital_request_kathmandu:
  "hospital_request kathmandu = Some (kathmandu_contents, kathmandu_config)"
  by (simp add: hospital_request_def kathmandu_def coordinates_def query_text_def
        kathmandu_contents_def kathmandu_config_def)

text \<open>
  Three chunks, of which one has both fields; and a response without chunks.
\<close>

theorem hospitals_come_from_complete_chunks_witness:
  "findHospitalsNearLocation env_maps kathmandu w0
     = (Inr \<lparr>summary_text = ''Nearby hospitals'',
             hospitals = [\<lparr>name = ''Bir Hospital'', uri = ''https://maps.example/bir''\<rparr>]\<rparr>,
        \<lparr>issued = [hospitals_request aiMaps kathmandu_contents kathmandu_config], slept = [], draws = 0\<rparr>)
   \<and> (\<exists>c cfg resp. hospital_request kathmandu = Some (c, cfg)
         \<and> wrapper_part_000 env_maps (generateContent env_maps (hospitals_request aiMaps c cfg)) w0
             = (Inr resp, \<lparr>issued = [hospitals_request aiMaps kathmandu_contents kathmandu_config],
                           slept = [], draws = 0\<rparr>)
         \<and> (\<forall>h\<in>set [\<lparr>name = ''Bir Hospital'', uri = ''https://maps.example/bir''\<rparr>].
               name h \<noteq> [] \<and> uri h \<noteq> []
              \<and> (\<exists>ch\<in>set (chunks_or_empty (groundingChunks resp)). \<exists>m. maps ch = Some m
                     \<and> maps_title m = Some (name h) \<and> maps_uri m = Some (uri h)))
         \<and> length [\<lparr>name = ''Bir Hospital'', uri = ''https://maps.example/bir''\<rparr>] =
             length (filter (\<lambda>ch. \<exists>m u t. maps ch = Some m \<and> maps_uri m = Some u \<and> u \<noteq> []
                                    \<and> maps_title m = Some t \<and> t \<noteq> [])
                       (chunks_or_empty (groundingChunks resp))))
   \<and> (\<exists>s. findHospitalsNearLocation env_no_chunks kathmandu w0
             = (Inr \<lparr>summary_text = s, hospitals = []\<rparr>,
                \<lparr>issued = [hospitals_request aiMaps kathmandu_contents kathmandu_config],
                 slept = [], draws = 0\<rparr>))"
proof -
  let ?w1 = "\<lparr>issued = [hospitals_request aiMaps kathmandu_contents kathmandu_config],
              slept = [], draws = 0\<rparr>"
  let ?res = "\<lparr>summary_text = ''Nearby hospitals'',
               hospitals = [\<lparr>name = ''Bir Hospital'', uri = ''https://maps.example/bir''\<rparr>]\<rparr>"
  have a: "wrapper_part_000 env_maps
             (generateContent env_maps (hospitals_request aiMaps kathmandu_contents kathmandu_config)) w0
           = (Inr maps_response, ?w1)"
    unfolding env_maps_def by (rule first_call_answered)
  have run: "findHospitalsNearLocation env_maps kathmandu w0 = (Inr ?res, ?w1)"
    by (simp add: findHospitalsNearLocation_def findHospitalsNearLocation_with_def
          findHospitalsNearLocation_try_def hospital_request_kathmandu a)
       (simp add: maps_response_def hospitals_of_def chunks_or_empty_def chunk_hospital_def
          chunk_bir_def chunk_no_uri_def chunk_no_maps_def or_default_def)
  have b: "wrapper_part_000 env_no_chunks
             (generateContent env_no_chunks (hospitals_request aiMaps kathmandu_contents kathmandu_config)) w0
           = (Inr (text_response ''None found''), ?w1)"
    unfolding env_no_chunks_def by (rule first_call_answered)
  have n: "groundingChunks (text_response ''None found'') = None"
    by (simp add: text_response_def)
  note t1 = hospitals_come_from_complete_chunks
       [where retry = "wrapper_part_000 env_maps" and cl = aiMaps and env = env_maps
          and inp = kathmandu and w = w0 and res = ?res and w' = ?w1,
        folded findHospitalsNearLocation_def]
  note t2 = hospitals_come_from_complete_chunks
       [where retry = "wrapper_part_000 env_no_chunks" and cl = aiMaps and env = env_no_chunks
          and inp = kathmandu and w = w0 and ?c0.0 = kathmandu_contents and ?cfg0.0 = kathmandu_config
          and ?resp0.0 = "text_response ''None found''" and ?w1.0 = ?w1,
        folded findHospitalsNearLocation_def]
  from conjunct1[OF t1] run conjunct2[OF t2] hospital_request_kathmandu b n
  show ?thesis by simp
qed

end
